theory Spec2Isabelle
  imports Main "HOL-Library.AList"
begin

text \<open>
  A shallow embedding of the dialogue-state engine of the sales assistant: the short-term
  memory (memory\_utils.py), the entity normalizer, the context update, the action
  selector and executor (agent.py) and the similar-price lookup (db\_utils.py). The
  definitions come first, in the order of their dependencies; the properties follow.
\<close>

section \<open>Short-term conversation memory (memory\_utils.py, MemoryManager)\<close>

text \<open>
  A stored message is the dictionary \<open>{"role": role, "content": content}\<close>. The manager
  holds \<open>max_messages = max_turns * 2\<close> (a Python int) and the list \<open>memory\<close>.
\<close>

record message =
  role :: string
  content :: string

record MemoryManager =
  max_messages :: int
  memory :: "message list"

definition MemoryManager_init :: "int \<Rightarrow> MemoryManager" where
  "MemoryManager_init max_turns = \<lparr> max_messages = max_turns * 2, memory = [] \<rparr>"

text \<open>
  Python's \<open>xs[i:]\<close>: a negative start counts from the end and is clipped at the front,
  a start beyond the end gives the empty list.
\<close>

definition py_slice_from :: "'a list \<Rightarrow> int \<Rightarrow> 'a list" where
  "py_slice_from xs i =
     (if i < 0 then drop (nat (int (length xs) + i)) xs else drop (nat i) xs)"

text \<open>
  \<open>add_message\<close>: an empty content is skipped; otherwise the message is appended and,
  when the list is longer than \<open>max_messages\<close>, the excess is cut from the front.
\<close>

definition add_message :: "MemoryManager \<Rightarrow> string \<Rightarrow> string \<Rightarrow> MemoryManager" where
  "add_message mm r c =
     (if c = [] then mm
      else
        let mem = memory mm @ [\<lparr> role = r, content = c \<rparr>] in
        if int (length mem) > max_messages mm
        then let excess = int (length mem) - max_messages mm
             in mm\<lparr> memory := py_slice_from mem excess \<rparr>
        else mm\<lparr> memory := mem \<rparr>)"

definition get_memory :: "MemoryManager \<Rightarrow> message list" where
  "get_memory mm = memory mm"

definition clear_memory :: "MemoryManager \<Rightarrow> MemoryManager" where
  "clear_memory mm = mm\<lparr> memory := [] \<rparr>"

text \<open>A sequence of \<open>add_message\<close> calls, each given as its (role, content) pair.\<close>

fun add_messages :: "MemoryManager \<Rightarrow> (string \<times> string) list \<Rightarrow> MemoryManager" where
  "add_messages mm [] = mm"
| "add_messages mm ((r, c) # calls) = add_messages (add_message mm r c) calls"

text \<open>The messages a sequence of calls offers to the store: those with a content.\<close>

definition offered :: "(string \<times> string) list \<Rightarrow> message list" where
  "offered calls =
     map (\<lambda>(r, c). \<lparr> role = r, content = c \<rparr>) (filter (\<lambda>(r, c). c \<noteq> []) calls)"


section \<open>Python values and dictionaries\<close>

text \<open>
  The entity mappings and the filter dictionary of the agent are Python dicts from strings
  to values of any JSON type. A finite float is \<open>Float m e\<close>, standing for \<open>m * 2^e\<close>.
  A dict is an association list in insertion order; \<open>AList.update\<close> is the assignment
  \<open>d[k] = v\<close> (the value is replaced in place, a new key is appended).
\<close>

datatype pyfloat = Float int int | NaN | PosInf | NegInf

datatype pyval =
    PNone
  | PBool bool
  | PInt int
  | PFloat pyfloat
  | PStr string
  | PList "pyval list"
  | PDict "(string \<times> pyval) list"

datatype pyerr = ValueError | OverflowError | AttributeError

type_synonym pydict = "(string \<times> pyval) list"

text \<open>\<open>d.get(k)\<close>, \<open>d.get(k, default)\<close>, \<open>k in d\<close> and \<open>d[k] = v\<close>.\<close>

definition dict_get :: "pydict \<Rightarrow> string \<Rightarrow> pyval" where
  "dict_get d k = (case map_of d k of None \<Rightarrow> PNone | Some v \<Rightarrow> v)"

definition dict_get_default :: "pydict \<Rightarrow> string \<Rightarrow> pyval \<Rightarrow> pyval" where
  "dict_get_default d k dflt = (case map_of d k of None \<Rightarrow> dflt | Some v \<Rightarrow> v)"

definition dict_has :: "pydict \<Rightarrow> string \<Rightarrow> bool" where
  "dict_has d k = (map_of d k \<noteq> None)"

definition dict_set :: "pydict \<Rightarrow> string \<Rightarrow> pyval \<Rightarrow> pydict" where
  "dict_set d k v = AList.update k v d"

text \<open>Truth value testing (\<open>if v:\<close>).\<close>

fun truthy :: "pyval \<Rightarrow> bool" where
  "truthy PNone = False"
| "truthy (PBool b) = b"
| "truthy (PInt i) = (i \<noteq> 0)"
| "truthy (PFloat (Float m e)) = (m \<noteq> 0)"
| "truthy (PFloat _) = True"
| "truthy (PStr s) = (s \<noteq> [])"
| "truthy (PList xs) = (xs \<noteq> [])"
| "truthy (PDict kvs) = (kvs \<noteq> [])"

text \<open>
  Python's \<open>==\<close>: booleans, integers and finite floats compare by numeric value, NaN is
  equal to nothing, every other pair of values compares by structure.
\<close>

definition num_of :: "pyval \<Rightarrow> (int \<times> int) option" where
  "num_of v =
     (case v of
        PBool b \<Rightarrow> Some (if b then 1 else 0, 0)
      | PInt i \<Rightarrow> Some (i, 0)
      | PFloat (Float m e) \<Rightarrow> Some (m, e)
      | _ \<Rightarrow> None)"

definition dyadic_eq :: "int \<times> int \<Rightarrow> int \<times> int \<Rightarrow> bool" where
  "dyadic_eq a b =
     (let e = min (snd a) (snd b)
      in fst a * 2 ^ nat (snd a - e) = fst b * 2 ^ nat (snd b - e))"

definition py_eq :: "pyval \<Rightarrow> pyval \<Rightarrow> bool" where
  "py_eq a b =
     (case (num_of a, num_of b) of
        (Some x, Some y) \<Rightarrow> dyadic_eq x y
      | (None, None) \<Rightarrow> a = b \<and> a \<noteq> PFloat NaN
      | _ \<Rightarrow> False)"

section \<open>Strings\<close>

text \<open>
  Strings are lists of characters; the character classes used by \<open>lower\<close>, \<open>title\<close>,
  \<open>strip\<close> and the regular expressions \<open>\d\<close>, \<open>\D\<close> are the ASCII ones.
\<close>

definition is_digit :: "char \<Rightarrow> bool" where
  "is_digit c = (c \<in> set ''0123456789'')"

definition digit_val :: "char \<Rightarrow> nat" where
  "digit_val c = (case map_of (zip ''0123456789'' [0, 1, 2, 3, 4, 5, 6, 7, 8, 9]) c of
                    Some d \<Rightarrow> d | None \<Rightarrow> 0)"

definition upper_letters :: string where
  "upper_letters = ''ABCDEFGHIJKLMNOPQRSTUVWXYZ''"

definition lower_letters :: string where
  "lower_letters = ''abcdefghijklmnopqrstuvwxyz''"

definition lower_char :: "char \<Rightarrow> char" where
  "lower_char c = (case map_of (zip upper_letters lower_letters) c of Some d \<Rightarrow> d | None \<Rightarrow> c)"

definition upper_char :: "char \<Rightarrow> char" where
  "upper_char c = (case map_of (zip lower_letters upper_letters) c of Some d \<Rightarrow> d | None \<Rightarrow> c)"

definition is_alpha :: "char \<Rightarrow> bool" where
  "is_alpha c = (c \<in> set upper_letters \<or> c \<in> set lower_letters)"

definition is_space :: "char \<Rightarrow> bool" where
  "is_space c = (c \<in> set [CHR '' '', CHR 0x09, CHR 0x0A, CHR 0x0B, CHR 0x0C, CHR 0x0D,
                            CHR 0x1C, CHR 0x1D, CHR 0x1E, CHR 0x1F])"

definition str_lower :: "string \<Rightarrow> string" where
  "str_lower s = map lower_char s"

definition str_strip :: "string \<Rightarrow> string" where
  "str_strip s = rev (dropWhile is_space (rev (dropWhile is_space s)))"

text \<open>\<open>s.title()\<close>: a letter is upper-cased after a non-letter and lower-cased after a letter.\<close>

fun title_from :: "bool \<Rightarrow> string \<Rightarrow> string" where
  "title_from prev [] = []"
| "title_from prev (c # cs) =
     (if is_alpha c then (if prev then lower_char c else upper_char c) # title_from True cs
      else c # title_from False cs)"

definition str_title :: "string \<Rightarrow> string" where
  "str_title s = title_from False s"

primrec starts_with :: "string \<Rightarrow> string \<Rightarrow> bool" where
  "starts_with [] s = True"
| "starts_with (p # ps) s = (case s of [] \<Rightarrow> False | c # cs \<Rightarrow> p = c \<and> starts_with ps cs)"

text \<open>\<open>sub in s\<close>.\<close>

primrec str_contains :: "string \<Rightarrow> string \<Rightarrow> bool" where
  "str_contains sub [] = (sub = [])"
| "str_contains sub (c # cs) = (starts_with sub (c # cs) \<or> str_contains sub cs)"

text \<open>
  \<open>s.replace(old, new)\<close> for a non-empty \<open>old\<close> (every call of the source passes a
  non-empty literal): occurrences are replaced from left to right without overlap; the
  counter holds how many characters of the occurrence just found remain to be skipped.
\<close>

fun replace_from :: "string \<Rightarrow> string \<Rightarrow> nat \<Rightarrow> string \<Rightarrow> string" where
  "replace_from old new k [] = []"
| "replace_from old new k (c # cs) =
     (if 0 < k then replace_from old new (k - 1) cs
      else if old \<noteq> [] \<and> starts_with old (c # cs)
      then new @ replace_from old new (length old - 1) cs
      else c # replace_from old new 0 cs)"

definition str_replace :: "string \<Rightarrow> string \<Rightarrow> string \<Rightarrow> string" where
  "str_replace old new s = replace_from old new 0 s"

definition str_remove :: "string \<Rightarrow> string \<Rightarrow> string" where
  "str_remove old s = str_replace old [] s"

text \<open>\<open>re.search(r'(\d+)', s)\<close>: the first maximal run of digits.\<close>

definition search_digits :: "string \<Rightarrow> string option" where
  "search_digits s =
     (let m = takeWhile is_digit (dropWhile (\<lambda>c. \<not> is_digit c) s)
      in if m = [] then None else Some m)"

definition int_of_digits :: "string \<Rightarrow> int" where
  "int_of_digits ds = foldl (\<lambda>a c. 10 * a + int (digit_val c)) 0 ds"

function str_of_nat :: "nat \<Rightarrow> string" where
  "str_of_nat n =
     (if n < 10 then [''0123456789'' ! n]
      else str_of_nat (n div 10) @ [''0123456789'' ! (n mod 10)])"
  by pat_completeness auto
termination
  by (relation "measure id") auto

definition str_of_int :: "int \<Rightarrow> string" where
  "str_of_int i = (if i < 0 then CHR ''-'' # str_of_nat (nat (- i)) else str_of_nat (nat i))"

text \<open>
  \<open>str(v)\<close>. The text Python prints for a float or a container is not computed here: it
  is the parameter \<open>R\<close>, and every statement below holds for every \<open>R\<close>.
\<close>

definition py_str :: "(pyval \<Rightarrow> string) \<Rightarrow> pyval \<Rightarrow> string" where
  "py_str R v =
     (case v of
        PStr s \<Rightarrow> s
      | PNone \<Rightarrow> ''None''
      | PBool b \<Rightarrow> (if b then ''True'' else ''False'')
      | PInt i \<Rightarrow> str_of_int i
      | _ \<Rightarrow> R v)"


section \<open>Entity normalization (agent.py)\<close>

text \<open>
  \<open>_parse_price\<close>, the string branch (the body of the \<open>try\<close> block): lower-case the
  text, delete the tokens \<open>tl\<close> and \<open>try\<close>, delete every comma and full stop, strip;
  pick the multiplier from the words \<open>milyon\<close>, \<open>bin\<close>, \<open>k\<close> and delete them; take the
  first run of digits. (The interpreter's configurable limit on the length of a digit
  string accepted by \<open>int\<close> is not modelled.)
\<close>

definition price_text :: "string \<Rightarrow> string" where
  "price_text price_val =
     str_strip (filter (\<lambda>c. c \<noteq> CHR '','' \<and> c \<noteq> CHR ''.'')
                  (str_remove ''try'' (str_remove ''tl'' (str_lower price_val))))"

definition parse_price_str :: "string \<Rightarrow> int option" where
  "parse_price_str price_val =
     (let price_str = price_text price_val;
          (multiplier, price_str) =
             (if str_contains ''milyon'' price_str
              then (1000000, str_remove ''milyon'' price_str)
              else if str_contains ''bin'' price_str \<or> str_contains ''k'' price_str
              then (1000, str_remove ''k'' (str_remove ''bin'' price_str))
              else (1, price_str))
      in case search_digits (str_strip price_str) of
           None \<Rightarrow> None
         | Some num \<Rightarrow> Some (int_of_digits num * multiplier))"


text \<open>\<open>int(x)\<close> for a float: truncation towards zero; NaN and the infinities raise.\<close>

definition int_of_float :: "pyfloat \<Rightarrow> pyerr + int" where
  "int_of_float x =
     (case x of
        NaN \<Rightarrow> Inl ValueError
      | PosInf \<Rightarrow> Inl OverflowError
      | NegInf \<Rightarrow> Inl OverflowError
      | Float m e \<Rightarrow>
          Inr (if 0 \<le> e then m * 2 ^ nat e else sgn m * (\<bar>m\<bar> div 2 ^ nat (- e))))"

text \<open>
  \<open>_parse_price\<close>: None gives None; a number (a bool is an int in Python) is converted
  by \<open>int\<close>, outside the \<open>try\<close> block; anything else is read as text.
\<close>

definition parse_price :: "(pyval \<Rightarrow> string) \<Rightarrow> pyval \<Rightarrow> pyerr + int option" where
  "parse_price R price_val =
     (case price_val of
        PNone \<Rightarrow> Inr None
      | PBool b \<Rightarrow> Inr (Some (if b then 1 else 0))
      | PInt i \<Rightarrow> Inr (Some i)
      | PFloat x \<Rightarrow> (case int_of_float x of Inl e \<Rightarrow> Inl e | Inr i \<Rightarrow> Inr (Some i))
      | PStr s \<Rightarrow> Inr (parse_price_str s)
      | _ \<Rightarrow> Inr (parse_price_str (py_str R price_val)))"

text \<open>
  \<open>_parse_year\<close>. The regular expression \<open>(?<!\d)(20\d{2}|19\d{2})(?!\d)\<close> finds the
  first four-digit token starting with 19 or 20 that has no digit on either side.
\<close>

definition year_token :: "string \<Rightarrow> bool" where
  "year_token s =
     (case s of
        a # b # c # d # rest \<Rightarrow>
          ([a, b] = ''20'' \<or> [a, b] = ''19'') \<and> is_digit c \<and> is_digit d \<and>
          (case rest of [] \<Rightarrow> True | e # _ \<Rightarrow> \<not> is_digit e)
      | _ \<Rightarrow> False)"

fun search_year :: "bool \<Rightarrow> string \<Rightarrow> int option" where
  "search_year prev_digit [] = None"
| "search_year prev_digit (c # cs) =
     (if \<not> prev_digit \<and> year_token (c # cs) then Some (int_of_digits (take 4 (c # cs)))
      else search_year (is_digit c) cs)"

definition parse_year :: "(pyval \<Rightarrow> string) \<Rightarrow> pyval \<Rightarrow> int option" where
  "parse_year R year_val =
     (case year_val of
        PNone \<Rightarrow> None
      | PInt i \<Rightarrow> (if 1900 < i \<and> i < 2100 then Some i else search_year False (str_of_int i))
      | PStr s \<Rightarrow> search_year False s
      | _ \<Rightarrow> search_year False (py_str R year_val))"

text \<open>\<open>_normalize_phone\<close>: keep the digits; valid when there are 10 to 13 of them.\<close>

definition normalize_phone :: "string option \<Rightarrow> string option" where
  "normalize_phone phone_str =
     (case phone_str of
        None \<Rightarrow> None
      | Some s \<Rightarrow>
          (let cleaned = filter is_digit s
           in if 10 \<le> length cleaned \<and> length cleaned \<le> 13 then Some cleaned else None))"

definition opt_val :: "string option \<Rightarrow> pyval" where
  "opt_val x = (case x of None \<Rightarrow> PNone | Some s \<Rightarrow> PStr s)"

definition value_mapping :: "(string \<times> (string \<times> string) list) list" where
  "value_mapping =
     [(''engine_type'',
         [(''electric'', ''Elektrik''), (''electrical'', ''Elektrik''),
          (''elektrikli'', ''Elektrik''), (''elektrik'', ''Elektrik''),
          (''diesel'', ''Dizel''), (''dizel'', ''Dizel''),
          (''gasoline'', ''Benzin''), (''petrol'', ''Benzin''), (''benzinli'', ''Benzin''),
          (''benzin'', ''Benzin''), (''hybrid'', ''Hibrit''), (''hibrit'', ''Hibrit'')]),
      (''body_type'',
         [(''suv'', ''SUV''), (''sedan'', ''Sedan''), (''hatchback'', ''Hatchback''),
          (''hb'', ''Hatchback'')]),
      (''transmission'',
         [(''automatic'', ''Otomatik''), (''auto'', ''Otomatik''), (''otomatik'', ''Otomatik''),
          (''manual'', ''Manuel''), (''manuel'', ''Manuel'')])]"

definition llm_filter_keys :: "string list" where
  "llm_filter_keys =
     [''brand_name'', ''model_name'', ''engine_type'', ''body_type'', ''transmission'']"

definition context_mapping :: "(string \<times> string) list" where
  "context_mapping =
     [(''brand_name'', ''brand''), (''model_name'', ''model''),
      (''engine_type'', ''engine_type''), (''body_type'', ''body_type''),
      (''transmission'', ''transmission'')]"

text \<open>One round of the loop over the string filters.\<close>

definition normalize_string_filter :: "pydict \<Rightarrow> pydict \<Rightarrow> string \<Rightarrow> pydict" where
  "normalize_string_filter entities normalized llm_key =
     (case dict_get entities llm_key of
        PStr val \<Rightarrow>
          (if str_strip val \<noteq> [] then
             let context_key = (case map_of context_mapping llm_key of
                                  Some k \<Rightarrow> k | None \<Rightarrow> llm_key);
                 norm_value_lower = str_lower (str_strip val);
                 normalized_value = str_title (str_strip val);
                 normalized_value =
                   (case map_of value_mapping context_key of
                      None \<Rightarrow> normalized_value
                    | Some m \<Rightarrow>
                        (case map_of m norm_value_lower of
                           None \<Rightarrow> normalized_value
                         | Some mapped_value \<Rightarrow>
                             if mapped_value \<noteq> [] then mapped_value else normalized_value))
             in dict_set normalized context_key (PStr normalized_value)
           else normalized)
      | _ \<Rightarrow> normalized)"

definition set_if_some :: "pydict \<Rightarrow> string \<Rightarrow> int option \<Rightarrow> pydict" where
  "set_if_some d k x = (case x of None \<Rightarrow> d | Some i \<Rightarrow> dict_set d k (PInt i))"

text \<open>
  \<open>_normalize_entities\<close>. The two price conversions come first and may raise; the prices
  and years are stored only when they are not None; the customer fields are stored
  whenever their raw key is present, the phone as whatever \<open>_normalize_phone\<close> returns.
\<close>

definition normalize_entities :: "(pyval \<Rightarrow> string) \<Rightarrow> pydict \<Rightarrow> pyerr + pydict" where
  "normalize_entities R entities =
     (case parse_price R (dict_get entities ''min_price'') of
        Inl e \<Rightarrow> Inl e
      | Inr min_p \<Rightarrow>
     (case parse_price R (dict_get entities ''max_price'') of
        Inl e \<Rightarrow> Inl e
      | Inr max_p \<Rightarrow>
          (let normalized = [];
               normalized = set_if_some normalized ''min_price'' min_p;
               normalized = set_if_some normalized ''max_price'' max_p;
               min_y = parse_year R (dict_get entities ''min_year'');
               max_y = parse_year R (dict_get entities ''max_year'');
               normalized = set_if_some normalized ''min_year'' min_y;
               normalized = set_if_some normalized ''max_year'' max_y;
               normalized = foldl (normalize_string_filter entities) normalized llm_filter_keys;
               normalized =
                 (if dict_has entities ''first_name''
                  then dict_set normalized ''first_name''
                         (PStr (str_title (str_strip (py_str R (dict_get entities ''first_name'')))))
                  else normalized);
               normalized =
                 (if dict_has entities ''last_name''
                  then dict_set normalized ''last_name''
                         (PStr (str_title (str_strip (py_str R (dict_get entities ''last_name'')))))
                  else normalized);
               normalized =
                 (if dict_has entities ''phone_number''
                  then dict_set normalized ''phone''
                         (opt_val (normalize_phone
                                     (Some (py_str R (dict_get entities ''phone_number'')))))
                  else normalized);
               normalized =
                 (if dict_has entities ''desired_car_description''
                  then dict_set normalized ''desired_car_description''
                         (PStr (str_strip (py_str R (dict_get entities ''desired_car_description''))))
                  else normalized);
               normalized = dict_set normalized ''is_greeting''
                              (dict_get_default entities ''is_greeting'' (PBool False));
               normalized = dict_set normalized ''is_reset''
                              (dict_get_default entities ''is_reset'' (PBool False));
               normalized = dict_set normalized ''is_farewell''
                              (dict_get_default entities ''is_farewell'' (PBool False));
               normalized = dict_set normalized ''is_list_all''
                              (dict_get_default entities ''is_list_all'' (PBool False));
               normalized = dict_set normalized ''is_similarity_request''
                              (dict_get_default entities ''is_similarity_request'' (PBool False));
               normalized = dict_set normalized ''confirmation''
                              (dict_get entities ''confirmation'')
           in Inr normalized)))"


section \<open>Catalogue records and the dialogue context (models.py, agent.py)\<close>

text \<open>
  A row of the table \<open>cars\<close>. The price column is DECIMAL(18,2) and is held as the number
  of hundredths, the capacity column is DECIMAL(4,1) and is held as the number of tenths.
\<close>

record car =
  car_id :: int
  brand :: string
  model :: string
  engine_type :: "string option"
  horsepower :: "int option"
  capacity :: "int option"
  price :: int
  currency :: "string option"
  year :: "int option"
  body_type :: "string option"
  transmission :: "string option"

record customer_lead =
  lead_id :: int
  lead_first_name :: string
  lead_last_name :: "string option"
  lead_phone :: string
  lead_desired_car_info :: "string option"

text \<open>\<open>hasattr(Car, k)\<close> on the columns the class declares.\<close>

definition Car_hasattr :: "string \<Rightarrow> bool" where
  "Car_hasattr k = (k \<in> set [''id'', ''brand'', ''model'', ''engine_type'', ''horsepower'',
                               ''capacity'', ''price'', ''currency'', ''year'', ''body_type'',
                               ''transmission'', ''created_at''])"

text \<open>
  The responses of the agent, one constructor for each template or literal text of the
  source, with the data the text is rendered from. Every one of them renders to a
  non-empty text, so a stored response is true in a truth value test exactly when it is
  present.
\<close>

datatype response =
    R_generic_fallback
  | R_greeting
  | R_confirm_reset
  | R_farewell
  | R_error_fallback
  | R_similarity_context_missing
  | R_show_results "car list"
  | R_no_results
  | R_ask_next_question string
  | R_acknowledge_and_ask "(string \<times> pyval) list" string
  | R_offer_search
  | R_no_more_questions
  | R_list_all_results "car list"
  | R_list_all_empty
  | R_show_similar_results "car list"
  | R_no_similar_results
  | R_confirm_model_match car
  | R_confirm_multiple_model_match "car list"
  | R_model_not_found_ask_brand
  | R_confirmation_acknowledge_ask_next string string "string option"
  | R_clarification_needed_after_no
  | R_clarification_needed_ambiguous
  | R_narrow_or_alternatives
  | R_new_criteria

text \<open>
  \<open>current_context\<close>. The acknowledgment summary is held as the list of (key, value)
  parts it is joined from: the joined text is non-empty exactly when the list is.
\<close>

record dialogue_context =
  filters :: pydict
  asked_questions :: "string set"
  last_question_key :: "string option"
  search_performed :: bool
  results_shown :: bool
  last_acknowledged_info :: "(string \<times> pyval) list option"
  customer_id :: "int option"
  customer_first_name :: pyval
  customer_phone :: pyval
  customer_desired_car :: "string option"
  initial_personalized_greeting_done :: bool
  asked_for_customer_info :: bool
  last_response :: "response option"
  last_shown_cars :: "car list option"
  last_shown_target_price :: "int option"
  last_shown_target_model :: "string option"
  last_shown_target_brand :: "string option"
  awaiting_model_confirmation :: bool
  potential_model_matches :: "car list option"

record agent =
  current_context :: dialogue_context
  updated_keys_this_turn :: "string set"

text \<open>
  The store behind the agent. The general catalogue lookup and the customer lookup are
  external collaborators and stay parameters; the similar-price lookup is modelled below
  on the rows of the table.
\<close>

record database =
  find_cars_by_criteria :: "pydict \<Rightarrow> nat \<Rightarrow> car list"
  find_customer_lead_by_phone :: "pyval \<Rightarrow> customer_lead option"
  get_distinct_brands :: "string list"
  cars_table :: "car list"

text \<open>FILTER\_QUESTIONS: field, flag in \<open>asked_questions\<close>, priority.\<close>

definition FILTER_QUESTIONS :: "(string \<times> string \<times> nat) list" where
  "FILTER_QUESTIONS =
     [(''brand'', ''asked_brand'', 1),
      (''engine_type'', ''asked_engine'', 2),
      (''body_type'', ''asked_body'', 3),
      (''price_range'', ''asked_price'', 4),
      (''transmission'', ''asked_transmission'', 5),
      (''year_range'', ''asked_year'', 6),
      (''model'', ''asked_model'', 7)]"

definition SEARCH_TRIGGER_FIELDS :: "string list" where
  "SEARCH_TRIGGER_FIELDS =
     [''brand'', ''model'', ''engine_type'', ''body_type'', ''transmission'', ''year'']"

definition range_keys :: "string list" where
  "range_keys = [''min_price'', ''max_price'', ''min_year'', ''max_year'']"

text \<open>\<open>key.replace('min_', '').replace('max_', '')\<close>.\<close>

definition base_key_of :: "string \<Rightarrow> string" where
  "base_key_of key = str_remove ''max_'' (str_remove ''min_'' key)"

text \<open>\<open>_reset_context\<close>: every filter key starts as None.\<close>

definition initial_filters :: pydict where
  "initial_filters =
     (let fs = foldl (\<lambda>d key. if Car_hasattr key then dict_set d key PNone else d) []
                 [''brand'', ''model'', ''engine_type'', ''body_type'', ''transmission'',
                  ''price'', ''year'']
      in foldl (\<lambda>d key. if Car_hasattr (base_key_of key) then dict_set d key PNone else d) fs
           range_keys)"

definition fresh_context :: dialogue_context where
  "fresh_context =
     \<lparr> filters = initial_filters,
       asked_questions = {},
       last_question_key = None,
       search_performed = False,
       results_shown = False,
       last_acknowledged_info = None,
       customer_id = None,
       customer_first_name = PNone,
       customer_phone = PNone,
       customer_desired_car = None,
       initial_personalized_greeting_done = False,
       asked_for_customer_info = False,
       last_response = None,
       last_shown_cars = None,
       last_shown_target_price = None,
       last_shown_target_model = None,
       last_shown_target_brand = None,
       awaiting_model_confirmation = False,
       potential_model_matches = None \<rparr>"

definition reset_context :: "agent \<Rightarrow> agent" where
  "reset_context ag = ag\<lparr> current_context := fresh_context \<rparr>"

definition ctx_upd :: "(dialogue_context \<Rightarrow> dialogue_context) \<Rightarrow> agent \<Rightarrow> agent" where
  "ctx_upd f ag = ag\<lparr> current_context := f (current_context ag) \<rparr>"

definition asked_flag_of :: "string \<Rightarrow> string option" where
  "asked_flag_of q_key = map_option fst (map_of FILTER_QUESTIONS q_key)"

text \<open>
  \<open>if q_key in FILTER_QUESTIONS: asked_questions.add(asked_flag)\<close>.
\<close>

definition mark_asked :: "string \<Rightarrow> dialogue_context \<Rightarrow> dialogue_context" where
  "mark_asked q_key ctx =
     (case asked_flag_of q_key of
        None \<Rightarrow> ctx
      | Some asked_flag \<Rightarrow> ctx\<lparr> asked_questions := insert asked_flag (asked_questions ctx) \<rparr>)"

section \<open>Context update (agent.py, \_update\_context\_with\_entities)\<close>

text \<open>
  The keys the loop visits. The source iterates over a Python set, whose order is not
  fixed by the language; only the order of the acknowledged parts depends on it.
\<close>

definition potential_filter_keys :: "string list" where
  "potential_filter_keys =
     [''brand'', ''model'', ''engine_type'', ''body_type'', ''transmission'', ''year'',
      ''min_price'', ''max_price'', ''min_year'', ''max_year'']"

text \<open>
  The loop state: the context, the flag \<open>updated\<close>, the keys updated in this call and the
  acknowledged parts.
\<close>

type_synonym update_state = "dialogue_context \<times> bool \<times> string set \<times> (string \<times> pyval) list"

definition update_filter_key :: "pydict \<Rightarrow> update_state \<Rightarrow> string \<Rightarrow> update_state" where
  "update_filter_key entities st context_key =
     (case st of (ctx, updated, keys, acknowledged_parts) \<Rightarrow>
        if dict_has entities context_key then
          let new_value = dict_get entities context_key in
          if new_value \<noteq> PNone then
            let base_key = base_key_of context_key in
            if Car_hasattr base_key \<or> context_key \<in> set range_keys then
              if \<not> py_eq (dict_get (filters ctx) context_key) new_value then
                let ctx = ctx\<lparr> filters := dict_set (filters ctx) context_key new_value \<rparr>;
                    q_key_base =
                      (if context_key \<in> set [''min_price'', ''max_price''] then ''price_range''
                       else if context_key \<in> set [''min_year'', ''max_year''] then ''year_range''
                       else context_key)
                in (mark_asked q_key_base ctx, True, insert context_key keys,
                    acknowledged_parts @ [(context_key, new_value)])
              else st
            else st
          else st
        else st)"

text \<open>
  When the loop body takes effect on a key: the entity is present and not None, the key
  names a column or a range bound, and the stored value differs from the new one.
\<close>

definition applies :: "pydict \<Rightarrow> dialogue_context \<Rightarrow> string \<Rightarrow> bool" where
  "applies entities ctx k =
     (dict_has entities k \<and> dict_get entities k \<noteq> PNone \<and>
      (Car_hasattr (base_key_of k) \<or> k \<in> set range_keys) \<and>
      \<not> py_eq (dict_get (filters ctx) k) (dict_get entities k))"



text \<open>The block "Reset model if brand changes".\<close>

definition brand_change_reset ::
  "pyval \<Rightarrow> dialogue_context \<times> bool \<Rightarrow> dialogue_context \<times> bool" where
  "brand_change_reset current_brand_before_update st =
     (case st of (ctx, updated) \<Rightarrow>
        let new_brand = dict_get (filters ctx) ''brand'' in
        if truthy new_brand \<and> \<not> py_eq new_brand current_brand_before_update then
          if dict_get (filters ctx) ''model'' \<noteq> PNone then
            if Car_hasattr ''model'' then
              let ctx = ctx\<lparr> filters := dict_set (filters ctx) ''model'' PNone \<rparr>;
                  ctx = (case asked_flag_of ''model'' of
                           None \<Rightarrow> ctx
                         | Some model_asked_flag \<Rightarrow>
                             ctx\<lparr> asked_questions := asked_questions ctx - {model_asked_flag} \<rparr>)
              in (ctx, True)
            else (ctx, updated)
          else (ctx, updated)
        else (ctx, updated))"

text \<open>The block "Update Customer Info".\<close>

definition update_customer_info ::
  "dialogue_context \<Rightarrow> pydict \<Rightarrow> dialogue_context \<times> bool \<times> string set" where
  "update_customer_info ctx entities =
     (let (ctx, updated, keys) =
            (if dict_has entities ''first_name'' \<and>
                \<not> py_eq (customer_first_name ctx) (dict_get entities ''first_name'')
             then (ctx\<lparr> customer_first_name := dict_get entities ''first_name'' \<rparr>, True,
                   {''first_name''})
             else (ctx, False, {}))
      in if dict_has entities ''phone'' \<and>
            \<not> py_eq (customer_phone ctx) (dict_get entities ''phone'')
         then (ctx\<lparr> customer_phone := dict_get entities ''phone'' \<rparr>, True,
               insert ''phone'' keys)
         else (ctx, updated, keys))"

text \<open>The block "Finalize".\<close>

definition finalize_update ::
  "dialogue_context \<Rightarrow> bool \<Rightarrow> (string \<times> pyval) list \<Rightarrow> dialogue_context" where
  "finalize_update ctx updated acknowledged_parts =
     (if updated then
        ctx\<lparr> last_acknowledged_info :=
               (if acknowledged_parts \<noteq> [] then Some acknowledged_parts else None),
             search_performed := False,
             results_shown := False \<rparr>
      else ctx\<lparr> last_acknowledged_info := None \<rparr>)"

text \<open>
  \<open>_update_context_with_entities\<close>: an empty mapping returns at once; otherwise the
  customer fields, the filter loop, the brand-change block and the final block run. The
  result is the agent and the returned flag.
\<close>

definition update_context_with_entities :: "agent \<Rightarrow> pydict \<Rightarrow> agent \<times> bool" where
  "update_context_with_entities ag entities =
     (if entities = [] then (ag, False)
      else
        let (ctx, updated, keys) = update_customer_info (current_context ag) entities;
            current_brand_before_update = dict_get (filters ctx) ''brand'';
            (ctx, updated, keys, acknowledged_parts) =
              foldl (update_filter_key entities) (ctx, updated, keys, []) potential_filter_keys;
            (ctx, updated) = brand_change_reset current_brand_before_update (ctx, updated);
            ctx = finalize_update ctx updated acknowledged_parts
        in (\<lparr> current_context = ctx, updated_keys_this_turn = keys \<rparr>, updated))"

section \<open>Search permission and the next question (agent.py)\<close>

definition should_search :: "agent \<Rightarrow> bool" where
  "should_search ag =
     (let fs = filters (current_context ag);
          filled_trigger_fields =
            filter (\<lambda>key. dict_get fs key \<noteq> PNone \<and> Car_hasattr key) SEARCH_TRIGGER_FIELDS;
          filled_trigger_fields =
            (if (dict_get fs ''min_price'' \<noteq> PNone \<or> dict_get fs ''max_price'' \<noteq> PNone) \<and>
                Car_hasattr ''price''
             then filled_trigger_fields @ [''price_range''] else filled_trigger_fields);
          filled_trigger_fields =
            (if (dict_get fs ''min_year'' \<noteq> PNone \<or> dict_get fs ''max_year'' \<noteq> PNone) \<and>
                Car_hasattr ''year''
             then filled_trigger_fields @ [''year_range''] else filled_trigger_fields)
      in filled_trigger_fields \<noteq> [])"

definition needs_asking :: "pydict \<Rightarrow> string \<Rightarrow> bool" where
  "needs_asking current_filters filter_key =
     (if filter_key = ''price_range''
      then dict_get current_filters ''min_price'' = PNone \<and>
           dict_get current_filters ''max_price'' = PNone
      else if filter_key = ''year_range''
      then dict_get current_filters ''min_year'' = PNone \<and>
           dict_get current_filters ''max_year'' = PNone
      else if filter_key = ''model''
      then dict_get current_filters ''brand'' \<noteq> PNone \<and>
           dict_get current_filters ''model'' = PNone
      else dict_get current_filters filter_key = PNone)"

definition question_due :: "dialogue_context \<Rightarrow> string \<times> string \<times> nat \<Rightarrow> bool" where
  "question_due ctx item =
     (case item of (filter_key, asked_flag, priority) \<Rightarrow>
        filter_key \<noteq> ''customer_info'' \<and>
        (let base_key = str_replace ''year_range'' ''year''
                          (str_replace ''price_range'' ''price'' filter_key);
             is_range = (filter_key \<in> set [''price_range'', ''year_range''])
         in (Car_hasattr base_key \<or> is_range) \<and>
            asked_flag \<notin> asked_questions ctx \<and>
            needs_asking (filters ctx) filter_key))"

text \<open>
  \<open>_get_next_question\<close>: the first question, by priority, that is due; its field is
  recorded in \<open>last_question_key\<close> and stands for the question text.
\<close>

definition get_next_question :: "agent \<Rightarrow> agent \<times> string option" where
  "get_next_question ag =
     (let sorted_questions = sort_key (\<lambda>item. snd (snd item)) FILTER_QUESTIONS;
          ctx = current_context ag
      in case find (question_due ctx) sorted_questions of
           Some (filter_key, asked_flag, priority) \<Rightarrow>
             (ag\<lparr> current_context := ctx\<lparr> last_question_key := Some filter_key \<rparr> \<rparr>,
              Some filter_key)
         | None \<Rightarrow>
             (ag\<lparr> current_context := ctx\<lparr> last_question_key := None \<rparr> \<rparr>, None))"


section \<open>Similar-price lookup (db\_utils.py, find\_similar\_priced\_cars)\<close>

text \<open>
  Python's \<open>decimal.Decimal\<close>: \<open>Decimal c e\<close> stands for \<open>c * 10^e\<close>. Arithmetic is
  exact and then rounded to the 28 significant digits of the default context, half to
  even.
\<close>

datatype decimal = Decimal int int

function ndigits :: "int \<Rightarrow> nat" where
  "ndigits n = (if n < 10 then 1 else Suc (ndigits (n div 10)))"
  by pat_completeness auto
termination
  by (relation "measure nat") auto

definition context_prec :: nat where
  "context_prec = 28"

definition dec_round :: "decimal \<Rightarrow> decimal" where
  "dec_round d =
     (case d of Decimal c e \<Rightarrow>
        let n = ndigits \<bar>c\<bar> in
        if n \<le> context_prec then Decimal c e
        else
          let k = n - context_prec;
              q = \<bar>c\<bar> div 10 ^ k;
              r = \<bar>c\<bar> mod 10 ^ k;
              half = 5 * 10 ^ (k - 1);
              q = (if half < r \<or> (r = half \<and> odd q) then q + 1 else q)
          in if q = 10 ^ context_prec
             then Decimal (sgn c * 10 ^ (context_prec - 1)) (e + int k + 1)
             else Decimal (sgn c * q) (e + int k))"

definition dec_sub :: "decimal \<Rightarrow> decimal \<Rightarrow> decimal" where
  "dec_sub a b =
     (case (a, b) of (Decimal c1 e1, Decimal c2 e2) \<Rightarrow>
        let e = min e1 e2
        in dec_round (Decimal (c1 * 10 ^ nat (e1 - e) - c2 * 10 ^ nat (e2 - e)) e))"

definition dec_add :: "decimal \<Rightarrow> decimal \<Rightarrow> decimal" where
  "dec_add a b =
     (case (a, b) of (Decimal c1 e1, Decimal c2 e2) \<Rightarrow>
        let e = min e1 e2
        in dec_round (Decimal (c1 * 10 ^ nat (e1 - e) + c2 * 10 ^ nat (e2 - e)) e))"

definition dec_mul :: "decimal \<Rightarrow> decimal \<Rightarrow> decimal" where
  "dec_mul a b =
     (case (a, b) of (Decimal c1 e1, Decimal c2 e2) \<Rightarrow>
        dec_round (Decimal (c1 * c2) (e1 + e2)))"

text \<open>Comparison of two decimals by value, as the store compares numeric values.\<close>

definition dec_le :: "decimal \<Rightarrow> decimal \<Rightarrow> bool" where
  "dec_le a b =
     (case (a, b) of (Decimal c1 e1, Decimal c2 e2) \<Rightarrow>
        let e = min e1 e2 in c1 * 10 ^ nat (e1 - e) \<le> c2 * 10 ^ nat (e2 - e))"

text \<open>
  \<open>decimal.Decimal(x)\<close> for a float is exact: \<open>m * 2^e\<close> with a negative \<open>e\<close> is
  \<open>m * 5^(-e) * 10^e\<close>. A float that is not finite has no finite decimal.
\<close>

definition Decimal_of_float :: "pyfloat \<Rightarrow> decimal option" where
  "Decimal_of_float x =
     (case x of
        Float m e \<Rightarrow> Some (if 0 \<le> e then Decimal (m * 2 ^ nat e) 0
                           else Decimal (m * 5 ^ nat (- e)) e)
      | _ \<Rightarrow> None)"

text \<open>
  The float literal \<open>0.15\<close> that the agent passes as the tolerance: the double nearest to
  15/100, which is 5404319552844595 / 2^55.
\<close>

definition float_0_15 :: pyfloat where
  "float_0_15 = Float 5404319552844595 (- 55)"

text \<open>A price of the table (hundredths) as the Decimal the store returns.\<close>

definition Decimal_of_price :: "int \<Rightarrow> decimal" where
  "Decimal_of_price p = Decimal p (- 2)"

text \<open>
  \<open>min_price = target_price * (Decimal(1) - Decimal(tolerance))\<close> and
  \<open>max_price = target_price * (Decimal(1) + Decimal(tolerance))\<close>.
\<close>

definition price_window :: "int \<Rightarrow> decimal \<Rightarrow> decimal \<times> decimal" where
  "price_window target_price tol =
     (dec_mul (Decimal_of_price target_price) (dec_sub (Decimal 1 0) tol),
      dec_mul (Decimal_of_price target_price) (dec_add (Decimal 1 0) tol))"

definition in_window :: "decimal \<times> decimal \<Rightarrow> int \<Rightarrow> bool" where
  "in_window w p = (dec_le (fst w) (Decimal_of_price p) \<and> dec_le (Decimal_of_price p) (snd w))"

text \<open>
  The exclusion filter: with both a brand and a model, a row is dropped when both match
  without regard to case; with a model only, when the model matches.
\<close>

definition not_excluded :: "string option \<Rightarrow> string option \<Rightarrow> car \<Rightarrow> bool" where
  "not_excluded exclude_brand exclude_model c =
     (case (exclude_brand, exclude_model) of
        (Some b, Some m) \<Rightarrow>
          (if b \<noteq> [] \<and> m \<noteq> []
           then \<not> (str_lower (brand c) = str_lower b \<and> str_lower (model c) = str_lower m)
           else if m \<noteq> [] then str_lower (model c) \<noteq> str_lower m
           else True)
      | (None, Some m) \<Rightarrow> (if m \<noteq> [] then str_lower (model c) \<noteq> str_lower m else True)
      | _ \<Rightarrow> True)"

text \<open>
  \<open>find_similar_priced_cars\<close> on the rows of the table: the price filter, the exclusion
  filter, the ordering by distance from the target and the limit. Rows at the same
  distance keep their table order (the store leaves their order open). A tolerance that
  is not finite makes the query fail, which the source answers with the empty list.
\<close>

definition find_similar_priced_cars ::
  "car list \<Rightarrow> int option \<Rightarrow> string option \<Rightarrow> string option \<Rightarrow> pyfloat \<Rightarrow> nat \<Rightarrow> car list"
where
  "find_similar_priced_cars table target_price exclude_brand exclude_model tolerance limit =
     (case target_price of
        None \<Rightarrow> []
      | Some target \<Rightarrow>
          (case Decimal_of_float tolerance of
             None \<Rightarrow> []
           | Some tol \<Rightarrow>
               (let rows = filter (\<lambda>c. in_window (price_window target tol) (price c)) table;
                    rows = filter (not_excluded exclude_brand exclude_model) rows;
                    rows = sort_key (\<lambda>c. \<bar>price c - target\<bar>) rows
                in take limit rows)))"


section \<open>Action execution (agent.py, \_execute\_action)\<close>

text \<open>
  \<open>_execute_action\<close> runs as a chain of blocks over the local variables \<open>action\<close> and
  \<open>response\<close>; the state of the chain is the agent, the action (the search block may
  reassign it), the response and whether an exception has been raised. An exception ends
  the call with the context as it is at that point.
\<close>

text \<open>
  The filters a search passes to the store:
  \<open>{k: v for k, v in filters.items() if v is not None and (hasattr(Car, base) or k in ranges)}\<close>.
\<close>

definition active_filters_of :: "pydict \<Rightarrow> pydict" where
  "active_filters_of fs =
     filter (\<lambda>(k, v). v \<noteq> PNone \<and> (Car_hasattr (base_key_of k) \<or> k \<in> set range_keys)) fs"

text \<open>
  \<open>_get_criteria_summary\<close> formats the price bounds with \<open>f"{v:,.0f}"\<close>, outside any
  \<open>try\<close>: the format raises for a string and for a container, and works for numbers.
\<close>

definition format_fails :: "pyval \<Rightarrow> bool" where
  "format_fails v = (case v of PStr s \<Rightarrow> True | PList xs \<Rightarrow> True | PDict kvs \<Rightarrow> True | _ \<Rightarrow> False)"

definition criteria_summary_raises :: "agent \<Rightarrow> bool" where
  "criteria_summary_raises ag =
     (Car_hasattr ''price'' \<and>
      (format_fails (dict_get (filters (current_context ag)) ''min_price'') \<or>
       format_fails (dict_get (filters (current_context ag)) ''max_price'')))"

type_synonym exec_state = "agent \<times> string \<times> response \<times> bool"

text \<open>The three blocks at the head of \<open>_execute_action\<close> that clear per-turn state.\<close>

definition clear_turn_state :: "string \<Rightarrow> dialogue_context \<Rightarrow> dialogue_context" where
  "clear_turn_state action ctx =
     (let ctx = (if action \<noteq> ''handle_model_confirmation''
                 then ctx\<lparr> search_performed := False, results_shown := False \<rparr> else ctx);
          ctx = (if action \<noteq> ''find_similar''
                 then ctx\<lparr> last_shown_cars := None, last_shown_target_price := None,
                           last_shown_target_model := None, last_shown_target_brand := None \<rparr>
                 else ctx);
          ctx = (if action \<notin> set [''clarify_model'', ''handle_model_confirmation'']
                 then ctx\<lparr> potential_model_matches := None,
                           awaiting_model_confirmation := False \<rparr>
                 else ctx)
      in ctx)"

text \<open>
  The block \<open>if action == "search"\<close>: a model without a brand reassigns the action to
  \<open>clarify_model\<close>, no active filter reassigns it to \<open>ask\<close>; otherwise the store is
  queried and the first hit becomes the anchor of later similarity requests.
\<close>

definition do_search :: "database \<Rightarrow> exec_state \<Rightarrow> exec_state" where
  "do_search db st =
     (case st of (ag, action, response, raised) \<Rightarrow>
        let active_filters = active_filters_of (filters (current_context ag)) in
        if truthy (dict_get active_filters ''model'') \<and> \<not> truthy (dict_get active_filters ''brand'')
        then (ag, ''clarify_model'', response, raised)
        else if active_filters = [] then (ag, ''ask'', response, raised)
        else
          let found_cars = find_cars_by_criteria db active_filters 5;
              ag = ctx_upd (\<lambda>ctx. ctx\<lparr> search_performed := True \<rparr>) ag
          in if criteria_summary_raises ag then (ag, action, response, True)
             else
               (case found_cars of
                  first_car # _ \<Rightarrow>
                    (ctx_upd (\<lambda>ctx. ctx\<lparr> results_shown := True,
                                          last_shown_cars := Some found_cars,
                                          last_shown_target_price := Some (price first_car),
                                          last_shown_target_model := Some (model first_car),
                                          last_shown_target_brand := Some (brand first_car) \<rparr>) ag,
                     action, R_show_results found_cars, raised)
                | [] \<Rightarrow>
                    (ctx_upd (\<lambda>ctx. ctx\<lparr> results_shown := False \<rparr>) ag,
                     action, R_no_results, raised)))"

text \<open>
  The block \<open>if action == "ask"\<close>: the next question is marked as asked and prefixed with
  the pending acknowledgment, which is consumed; without a question the agent offers to
  search or falls back.
\<close>

definition do_ask :: "exec_state \<Rightarrow> exec_state" where
  "do_ask st =
     (case st of (ag, action, response, raised) \<Rightarrow>
        (case get_next_question ag of
           (ag, Some next_question) \<Rightarrow>
             let ag = (case last_question_key (current_context ag) of
                         None \<Rightarrow> ag
                       | Some q_key \<Rightarrow> ctx_upd (mark_asked q_key) ag)
             in (case last_acknowledged_info (current_context ag) of
                   Some current_ack \<Rightarrow>
                     (ctx_upd (\<lambda>ctx. ctx\<lparr> last_acknowledged_info := None \<rparr>) ag, action,
                      R_acknowledge_and_ask current_ack next_question, raised)
                 | None \<Rightarrow> (ag, action, R_ask_next_question next_question, raised))
         | (ag, None) \<Rightarrow>
             if should_search ag \<and> \<not> search_performed (current_context ag)
             then (if criteria_summary_raises ag then (ag, action, response, True)
                   else (ag, action, R_offer_search, raised))
             else (ag, action, R_no_more_questions, raised)))"

text \<open>The block \<open>elif action == "list_all"\<close>.\<close>

definition do_list_all :: "database \<Rightarrow> exec_state \<Rightarrow> exec_state" where
  "do_list_all db st =
     (case st of (ag, action, response, raised) \<Rightarrow>
        let found_cars = find_cars_by_criteria db [] 5;
            ag = ctx_upd (\<lambda>ctx. ctx\<lparr> search_performed := True \<rparr>) ag
        in if found_cars \<noteq> []
           then (ctx_upd (\<lambda>ctx. ctx\<lparr> results_shown := True \<rparr>) ag, action,
                 R_list_all_results found_cars, raised)
           else (ctx_upd (\<lambda>ctx. ctx\<lparr> results_shown := False \<rparr>) ag, action,
                 R_list_all_empty, raised))"

text \<open>The truth value of a stored optional string.\<close>

definition str_truthy :: "string option \<Rightarrow> bool" where
  "str_truthy x = (case x of None \<Rightarrow> False | Some s \<Rightarrow> s \<noteq> [])"

text \<open>
  The block \<open>elif action == "find_similar"\<close>: the lookup around the anchor, with the
  tolerance \<open>0.15\<close> and the limit 5.
\<close>

definition do_find_similar :: "database \<Rightarrow> exec_state \<Rightarrow> exec_state" where
  "do_find_similar db st =
     (case st of (ag, action, response, raised) \<Rightarrow>
        let target_price = last_shown_target_price (current_context ag);
            exclude_model = last_shown_target_model (current_context ag);
            exclude_brand = last_shown_target_brand (current_context ag)
        in if target_price \<noteq> None \<and> str_truthy exclude_model \<and> str_truthy exclude_brand
           then
             let similar_cars = find_similar_priced_cars (cars_table db) target_price
                                  exclude_brand exclude_model float_0_15 5;
                 ag = ctx_upd (\<lambda>ctx. ctx\<lparr> search_performed := True \<rparr>) ag
             in if similar_cars \<noteq> []
                then (ctx_upd (\<lambda>ctx. ctx\<lparr> results_shown := True \<rparr>) ag, action,
                      R_show_similar_results similar_cars, raised)
                else (ctx_upd (\<lambda>ctx. ctx\<lparr> results_shown := False \<rparr>) ag, action,
                      R_no_similar_results, raised)
           else (ctx_upd (\<lambda>ctx. ctx\<lparr> results_shown := False \<rparr>) ag, action,
                 R_similarity_context_missing, raised))"

text \<open>
  \<open>isinstance(v, str)\<close>. The clarification texts are rendered with
  \<open>model_name.title()\<close>, which raises for a model that is not a string.
\<close>

definition is_str :: "pyval \<Rightarrow> bool" where
  "is_str v = (case v of PStr s \<Rightarrow> True | _ \<Rightarrow> False)"

text \<open>
  The block \<open>if action == "clarify_model"\<close>: the store is queried with the filters other
  than the brand; with candidates the agent stores them and awaits a confirmation, without
  candidates it drops the model.
\<close>

definition do_clarify_model :: "database \<Rightarrow> exec_state \<Rightarrow> exec_state" where
  "do_clarify_model db st =
     (case st of (ag, action, response, raised) \<Rightarrow>
        let model_name = dict_get (filters (current_context ag)) ''model'' in
        if \<not> truthy model_name then (ag, action, R_generic_fallback, raised)
        else
          let clarification_filters =
                filter (\<lambda>(k, v). v \<noteq> PNone \<and> k \<noteq> ''brand'') (filters (current_context ag));
              clarification_filters = dict_set clarification_filters ''model'' model_name;
              found_cars = find_cars_by_criteria db clarification_filters 3
          in (case found_cars of
                first_car # others \<Rightarrow>
                  let ag = ctx_upd (\<lambda>ctx. ctx\<lparr> potential_model_matches := Some found_cars,
                                                 awaiting_model_confirmation := True \<rparr>) ag
                  in if \<not> is_str model_name then (ag, action, response, True)
                     else if others = []
                     then (ag, action, R_confirm_model_match first_car, raised)
                     else (ag, action, R_confirm_multiple_model_match found_cars, raised)
              | [] \<Rightarrow>
                  if \<not> is_str model_name then (ag, action, response, True)
                  else
                    let ag = (if Car_hasattr ''model''
                              then ctx_upd (\<lambda>ctx. ctx\<lparr> filters :=
                                              dict_set (filters ctx) ''model'' PNone \<rparr>) ag
                              else ag);
                        ag = ctx_upd (\<lambda>ctx. ctx\<lparr> awaiting_model_confirmation := False,
                                                   potential_model_matches := None \<rparr>) ag
                    in (ag, action, R_model_not_found_ask_brand, raised)))"

text \<open>\<open>if hasattr(Car, 'model'): filters['model'] = None\<close>.\<close>

definition clear_ambiguous_model :: "agent \<Rightarrow> agent" where
  "clear_ambiguous_model ag =
     (if Car_hasattr ''model''
      then ctx_upd (\<lambda>ctx. ctx\<lparr> filters := dict_set (filters ctx) ''model'' PNone \<rparr>) ag
      else ag)"

text \<open>
  The block \<open>elif action == "handle_model_confirmation"\<close>: 'yes' with stored candidates
  adopts the first one; 'no' and every other value drop the model; the confirmation
  state is reset in every case.
\<close>

definition do_handle_model_confirmation :: "pydict \<Rightarrow> exec_state \<Rightarrow> exec_state" where
  "do_handle_model_confirmation entities st =
     (case st of (ag, action, response, raised) \<Rightarrow>
        let confirmation = dict_get entities ''confirmation'';
            potential_matches = potential_model_matches (current_context ag);
            (ag, response) =
              (case (py_eq confirmation (PStr ''yes''), potential_matches) of
                 (True, Some (confirmed_car # others)) \<Rightarrow>
                   let confirmed_brand = brand confirmed_car;
                       confirmed_model = model confirmed_car;
                       ag = ctx_upd (\<lambda>ctx. ctx\<lparr> filters :=
                              dict_set (filters ctx) ''brand'' (PStr confirmed_brand) \<rparr>) ag;
                       ag = ctx_upd (\<lambda>ctx. ctx\<lparr> filters :=
                              dict_set (filters ctx) ''model'' (PStr confirmed_model) \<rparr>) ag;
                       ag = ctx_upd (mark_asked ''brand'') ag;
                       ag = ctx_upd (mark_asked ''model'') ag;
                       (ag, next_q) = get_next_question ag
                   in (ag, R_confirmation_acknowledge_ask_next confirmed_brand confirmed_model next_q)
               | _ \<Rightarrow>
                   if py_eq confirmation (PStr ''no'')
                   then (clear_ambiguous_model ag, R_clarification_needed_after_no)
                   else (clear_ambiguous_model ag, R_clarification_needed_ambiguous))
        in (ctx_upd (\<lambda>ctx. ctx\<lparr> awaiting_model_confirmation := False,
                                  potential_model_matches := None \<rparr>) ag,
            action, response, raised))"

text \<open>The block \<open>elif action == "wait"\<close>: the response set earlier in the turn, if any.\<close>

definition do_wait :: "exec_state \<Rightarrow> exec_state" where
  "do_wait st =
     (case st of (ag, action, response, raised) \<Rightarrow>
        (case last_response (current_context ag) of
           None \<Rightarrow> (ag, action, R_generic_fallback, raised)
         | Some r \<Rightarrow> (ag, action, r, raised)))"

text \<open>The final block: where the response is stored in \<open>last_response\<close>.\<close>

definition store_response :: "exec_state \<Rightarrow> exec_state" where
  "store_response st =
     (case st of (ag, action, response, raised) \<Rightarrow>
        if action \<notin> set [''wait'', ''reset'', ''farewell'', ''greeting'', ''list_all'']
        then (ctx_upd (\<lambda>ctx. ctx\<lparr> last_response := Some response \<rparr>) ag, action, response, raised)
        else if action = ''wait'' then st
        else if last_response (current_context ag) \<noteq> None then st
        else (ctx_upd (\<lambda>ctx. ctx\<lparr> last_response := Some response \<rparr>) ag, action, response, raised))"

text \<open>A block is skipped once an exception has been raised.\<close>

definition unless_raised :: "(exec_state \<Rightarrow> exec_state) \<Rightarrow> exec_state \<Rightarrow> exec_state" where
  "unless_raised f st = (case st of (ag, action, response, raised) \<Rightarrow> if raised then st else f st)"

text \<open>The chain \<open>if action == "ask" ... elif "list_all" ... elif "find_similar"\<close>.\<close>

definition dispatch_lookup :: "database \<Rightarrow> exec_state \<Rightarrow> exec_state" where
  "dispatch_lookup db st =
     (case st of (ag, action, response, raised) \<Rightarrow>
        if action = ''ask'' then do_ask st
        else if action = ''list_all'' then do_list_all db st
        else if action = ''find_similar'' then do_find_similar db st
        else st)"

text \<open>
  The chain \<open>if action == "clarify_model" ... elif "handle_model_confirmation" ... elif
  "wait"\<close>.
\<close>

definition dispatch_clarification :: "database \<Rightarrow> pydict \<Rightarrow> exec_state \<Rightarrow> exec_state" where
  "dispatch_clarification db entities st =
     (case st of (ag, action, response, raised) \<Rightarrow>
        if action = ''clarify_model'' then do_clarify_model db st
        else if action = ''handle_model_confirmation''
        then do_handle_model_confirmation entities st
        else if action = ''wait'' then do_wait st
        else st)"

text \<open>
  \<open>_execute_action\<close>: the result is the agent, the value of \<open>action\<close> at the end of the
  call and whether the call raised.
\<close>

definition execute_action ::
  "database \<Rightarrow> agent \<Rightarrow> string \<Rightarrow> pydict \<Rightarrow> agent \<times> string \<times> bool" where
  "execute_action db ag action entities =
     (let st = (ctx_upd (clear_turn_state action) ag, action, R_generic_fallback, False);
          st = (if action = ''search'' then do_search db st else st);
          st = unless_raised (dispatch_lookup db) st;
          st = unless_raised (dispatch_clarification db entities) st;
          st = unless_raised store_response st
      in case st of (ag, action, response, raised) \<Rightarrow> (ag, action, raised))"

section \<open>Turn processing (agent.py, process\_message)\<close>

text \<open>
  A turn is processed from the effective entities of the user message (the result of the
  extractor or of the fallback extraction). The memory buffer and the transcript log are
  written around these steps and are not part of the dialogue context.
\<close>

text \<open>The truth value of \<open>entities.get(k)\<close>.\<close>

definition entity_flag :: "pydict \<Rightarrow> string \<Rightarrow> bool" where
  "entity_flag entities k = truthy (dict_get entities k)"

text \<open>The truth value of a stored customer id.\<close>

definition id_truthy :: "int option \<Rightarrow> bool" where
  "id_truthy x = (case x of None \<Rightarrow> False | Some i \<Rightarrow> i \<noteq> 0)"

text \<open>
  The block "Customer Identification": a phone that is new to the session forgets the
  previous customer, looks the phone up and adopts the customer found, or keeps the phone.
\<close>

definition identify_customer :: "database \<Rightarrow> agent \<Rightarrow> pydict \<Rightarrow> agent" where
  "identify_customer db ag entities =
     (let phone_from_entities = dict_get entities ''phone'';
          ctx = current_context ag
      in if truthy phone_from_entities \<and>
            (\<not> py_eq phone_from_entities (customer_phone ctx) \<or> customer_phone ctx = PNone)
         then
           let ctx = (if id_truthy (customer_id ctx)
                      then ctx\<lparr> customer_id := None, customer_first_name := PNone,
                                customer_desired_car := None,
                                initial_personalized_greeting_done := False \<rparr>
                      else ctx);
               ctx = (case find_customer_lead_by_phone db phone_from_entities of
                        Some customer \<Rightarrow>
                          ctx\<lparr> customer_id := Some (lead_id customer),
                               customer_first_name := PStr (lead_first_name customer),
                               customer_phone := PStr (lead_phone customer),
                               customer_desired_car := lead_desired_car_info customer \<rparr>
                      | None \<Rightarrow>
                          let ctx = ctx\<lparr> customer_phone := phone_from_entities \<rparr>
                          in if truthy (dict_get entities ''first_name'')
                             then ctx\<lparr> customer_first_name := dict_get entities ''first_name'' \<rparr>
                             else ctx)
           in ag\<lparr> current_context := ctx \<rparr>
         else ag)"

text \<open>
  \<open>_handle_immediate_actions\<close>: reset, farewell, a first greeting in an empty context,
  and list-all without other filters. The result is the agent, whether an action was
  taken, the final action of the executor call made for list-all, and whether it raised.
\<close>

definition handle_immediate_actions ::
  "database \<Rightarrow> agent \<Rightarrow> pydict \<Rightarrow> agent \<times> bool \<times> string option \<times> bool" where
  "handle_immediate_actions db ag entities =
     (let (ag, action_taken, action, response, executed, raised) =
            (if entity_flag entities ''is_reset''
             then (reset_context ag, True, Some ''reset'', Some R_confirm_reset, None, False)
             else if entity_flag entities ''is_farewell''
             then (ag, True, Some ''farewell'', Some R_farewell, None, False)
             else if entity_flag entities ''is_greeting'' \<and>
                     \<not> initial_personalized_greeting_done (current_context ag)
             then
               let is_context_empty =
                     \<not> list_ex (\<lambda>f. truthy f)
                          (filter (\<lambda>f. f \<noteq> PNone) (map snd (filters (current_context ag))))
               in if is_context_empty \<and> customer_id (current_context ag) = None
                  then (ag, True, Some ''greeting'', Some R_greeting, None, False)
                  else (ag, False, None, None, None, False)
             else if entity_flag entities ''is_list_all''
             then
               let has_other_filters =
                     list_ex (\<lambda>k. truthy (dict_get entities k))
                       (filter (\<lambda>k. dict_get entities k \<noteq> PNone) potential_filter_keys)
               in if \<not> has_other_filters
                  then (case execute_action db ag ''list_all'' entities of
                          (ag, act, raised) \<Rightarrow> (ag, True, Some ''list_all'', None, Some act, raised))
                  else (ag, False, None, None, None, False)
             else (ag, False, None, None, None, False))
      in if raised then (ag, action_taken, executed, True)
         else if action_taken then
           let ag = (if action \<noteq> Some ''list_all'' \<and> response \<noteq> None
                     then ctx_upd (\<lambda>ctx. ctx\<lparr> last_response := response \<rparr>) ag else ag);
               ag = (if last_response (current_context ag) = None
                     then ctx_upd (\<lambda>ctx. ctx\<lparr> last_response := Some R_generic_fallback \<rparr>) ag
                     else ag)
           in (ag, True, executed, False)
         else (ag, False, executed, False))"

text \<open>
  The block "Handle Immediate Actions" of \<open>process_message\<close>: the handler is called when
  one of the intent flags asks for it.
\<close>

definition immediate_step ::
  "database \<Rightarrow> agent \<Rightarrow> pydict \<Rightarrow> agent \<times> bool \<times> string option \<times> bool" where
  "immediate_step db ag entities =
     (if entity_flag entities ''is_reset'' \<or> entity_flag entities ''is_farewell'' \<or>
         (entity_flag entities ''is_greeting'' \<and>
          \<not> initial_personalized_greeting_done (current_context ag)) \<or>
         entity_flag entities ''is_list_all''
      then handle_immediate_actions db ag entities
      else (ag, False, None, False))"

text \<open>The \<open>except\<close> handler of \<open>process_message\<close>.\<close>

definition on_error :: "agent \<Rightarrow> agent" where
  "on_error ag =
     ctx_upd (\<lambda>ctx. ctx\<lparr> awaiting_model_confirmation := False,
                          potential_model_matches := None \<rparr>) ag"

text \<open>
  The result of a turn: the agent, the response returned, and the final action of the
  call of \<open>_execute_action\<close> made in the turn (None when the turn makes no call).
\<close>

type_synonym turn_result = "agent \<times> response option \<times> string option"

definition finish_turn :: "agent \<times> string \<times> bool \<Rightarrow> turn_result" where
  "finish_turn r =
     (case r of (ag, act, raised) \<Rightarrow>
        if raised then (on_error ag, Some R_error_fallback, Some act)
        else (ag, last_response (current_context ag), Some act))"

text \<open>The condition of the block "Check for Model Clarification Need".\<close>

definition needs_model_clarification :: "agent \<Rightarrow> bool \<Rightarrow> bool" where
  "needs_model_clarification ag context_updated =
     (let current_filters = filters (current_context ag)
      in truthy (dict_get current_filters ''model'') \<and>
         \<not> truthy (dict_get current_filters ''brand'') \<and>
         (''model'' \<in> updated_keys_this_turn ag \<or> \<not> context_updated))"

text \<open>The block "Determine Next Action (Standard Flow)".\<close>

definition determine_action :: "agent \<Rightarrow> bool \<Rightarrow> pyval \<Rightarrow> agent \<times> string" where
  "determine_action ag context_updated confirmation =
     (if context_updated then (ag, if should_search ag then ''search'' else ''ask'')
      else if py_eq confirmation (PStr ''yes'') then
        (if results_shown (current_context ag)
         then (ctx_upd (\<lambda>ctx. ctx\<lparr> last_response := Some R_narrow_or_alternatives \<rparr>) ag, ''wait'')
         else (ag, if should_search ag then ''search'' else ''ask''))
      else if py_eq confirmation (PStr ''no'') then
        (if results_shown (current_context ag)
         then (ctx_upd (\<lambda>ctx. ctx\<lparr> last_response := Some R_new_criteria \<rparr>) (reset_context ag),
               ''wait'')
         else (case last_question_key (current_context ag) of
                 Some q_key \<Rightarrow> (if q_key \<noteq> [] then ctx_upd (mark_asked q_key) ag else ag, ''ask'')
               | None \<Rightarrow> (ag, ''ask'')))
      else (ag, if should_search ag \<and> \<not> search_performed (current_context ag)
                then ''search'' else ''ask''))"

text \<open>
  \<open>process_message\<close>, from the effective entities on: the confirmation handler, the
  similarity request, the customer identification, the immediate actions, and the normal
  flow of context update, clarification check and action.
\<close>

definition process_message :: "database \<Rightarrow> agent \<Rightarrow> pydict \<Rightarrow> turn_result" where
  "process_message db ag entities =
     (let ag = ag\<lparr> updated_keys_this_turn := {} \<rparr> in
      if awaiting_model_confirmation (current_context ag) then
        finish_turn (execute_action db (ctx_upd (\<lambda>ctx. ctx\<lparr> last_response := None \<rparr>) ag)
                       ''handle_model_confirmation'' entities)
      else if truthy (dict_get_default entities ''is_similarity_request'' (PBool False)) then
        (if results_shown (current_context ag) \<and>
            last_shown_target_price (current_context ag) \<noteq> None \<and>
            str_truthy (last_shown_target_model (current_context ag)) \<and>
            str_truthy (last_shown_target_brand (current_context ag))
         then finish_turn (execute_action db ag ''find_similar'' entities)
         else (ctx_upd (\<lambda>ctx. ctx\<lparr> last_response := Some R_similarity_context_missing \<rparr>) ag,
               Some R_similarity_context_missing, None))
      else
        let ag = identify_customer db ag entities;
            (ag, action_taken, executed, raised) = immediate_step db ag entities
        in if raised then (on_error ag, Some R_error_fallback, executed)
           else if action_taken then (ag, last_response (current_context ag), executed)
           else
             let (ag, context_updated) = update_context_with_entities ag entities;
                 confirmation = dict_get entities ''confirmation''
             in if needs_model_clarification ag context_updated
                then finish_turn (execute_action db ag ''clarify_model'' entities)
                else
                  let (ag, action) = determine_action ag context_updated confirmation
                  in finish_turn (execute_action db ag action entities))"

text \<open>
  Two views of a turn, used to state its properties. A turn reaches the normal dialogue
  flow when the agent is not awaiting a model confirmation, the entities carry no
  similarity request and no immediate action is taken. In that flow the entities are
  merged into the context of the agent after the customer identification.
\<close>

definition identified_agent :: "database \<Rightarrow> agent \<Rightarrow> pydict \<Rightarrow> agent" where
  "identified_agent db ag entities =
     identify_customer db (ag\<lparr> updated_keys_this_turn := {} \<rparr>) entities"

definition normal_flow :: "database \<Rightarrow> agent \<Rightarrow> pydict \<Rightarrow> bool" where
  "normal_flow db ag entities =
     (\<not> awaiting_model_confirmation (current_context ag) \<and>
      \<not> truthy (dict_get_default entities ''is_similarity_request'' (PBool False)) \<and>
      \<not> fst (snd (immediate_step db (identified_agent db ag entities) entities)))"

definition merged_agent :: "database \<Rightarrow> agent \<Rightarrow> pydict \<Rightarrow> agent" where
  "merged_agent db ag entities =
     fst (update_context_with_entities (identified_agent db ag entities) entities)"

section \<open>Example data\<close>

text \<open>
  A catalogue row with the given id, brand, model and price (in hundredths), a store whose
  general lookups find nothing, the agent as it is after construction, and that agent with
  one filter set.
\<close>

definition example_car :: "int \<Rightarrow> string \<Rightarrow> string \<Rightarrow> int \<Rightarrow> car" where
  "example_car i b m p =
     \<lparr> car_id = i, brand = b, model = m, engine_type = None, horsepower = None,
       capacity = None, price = p, currency = Some ''TL'', year = None, body_type = None,
       transmission = None \<rparr>"

definition example_db :: "car list \<Rightarrow> database" where
  "example_db table =
     \<lparr> find_cars_by_criteria = (\<lambda>fs limit. []),
       find_customer_lead_by_phone = (\<lambda>phone. None),
       get_distinct_brands = [],
       cars_table = table \<rparr>"

definition new_agent :: agent where
  "new_agent = \<lparr> current_context = fresh_context, updated_keys_this_turn = {} \<rparr>"

definition agent_with_filter :: "string \<Rightarrow> pyval \<Rightarrow> agent" where
  "agent_with_filter k v =
     ctx_upd (\<lambda>ctx. ctx\<lparr> filters := dict_set (filters ctx) k v \<rparr>) new_agent"

text \<open>An agent that has asked the user to confirm a Toyota Corolla.\<close>

definition awaiting_agent :: agent where
  "awaiting_agent =
     ctx_upd (\<lambda>ctx. ctx\<lparr> awaiting_model_confirmation := True,
                          potential_model_matches :=
                            Some [example_car 1 ''Toyota'' ''Corolla'' 60000000] \<rparr>)
       (agent_with_filter ''model'' (PStr ''Corolla''))"

text \<open>
  An agent whose last search showed a Toyota Corolla at 600000.00, and an agent that
  still holds the acknowledgment of an earlier turn.
\<close>

definition anchored_agent :: agent where
  "anchored_agent =
     ctx_upd (\<lambda>ctx. ctx\<lparr> search_performed := True, results_shown := True,
                          last_shown_cars := Some [example_car 1 ''Toyota'' ''Corolla'' 60000000],
                          last_shown_target_price := Some 60000000,
                          last_shown_target_model := Some ''Corolla'',
                          last_shown_target_brand := Some ''Toyota'' \<rparr>)
       (agent_with_filter ''brand'' (PStr ''Toyota''))"

definition acknowledging_agent :: agent where
  "acknowledging_agent =
     ctx_upd (\<lambda>ctx. ctx\<lparr> search_performed := True, results_shown := True,
                          last_acknowledged_info := Some [(''brand'', PStr ''Toyota'')] \<rparr>)
       (agent_with_filter ''brand'' (PStr ''Toyota''))"

section \<open>Basic facts about dictionaries and the context\<close>

lemma dict_get_set: "dict_get (dict_set d k v) k' = (if k' = k then v else dict_get d k')"
  by (simp add: dict_get_def dict_set_def update_conv')

lemma ctx_upd_simps [simp]:
  "current_context (ctx_upd f ag) = f (current_context ag)"
  "updated_keys_this_turn (ctx_upd f ag) = updated_keys_this_turn ag"
  by (simp_all add: ctx_upd_def)

lemma filters_mark_asked [simp]: "filters (mark_asked q ctx) = filters ctx"
  by (simp add: mark_asked_def split: option.splits)

lemma base_key_of_simps:
  "base_key_of ''brand'' = ''brand''" "base_key_of ''model'' = ''model''"
  by code_simp+

lemma Car_hasattr_simps: "Car_hasattr ''brand''" "Car_hasattr ''model''"
  by (simp_all add: Car_hasattr_def)


lemma py_eq_PStr: "py_eq v (PStr s) \<longleftrightarrow> v = PStr s"
  by (cases v) (auto simp: py_eq_def num_of_def split: pyfloat.splits)

section \<open>Properties of the memory store\<close>

lemma add_message_max_messages [simp]:
  "max_messages (add_message mm r c) = max_messages mm"
  by (simp add: add_message_def Let_def)

lemma add_messages_max_messages [simp]:
  "max_messages (add_messages mm calls) = max_messages mm"
  by (induction mm calls rule: add_messages.induct) simp_all

lemma add_message_memory:
  assumes "max_messages mm = int (2 * N)"
  shows "memory (add_message mm r c) =
           (if c = [] then memory mm
            else drop (Suc (length (memory mm)) - 2 * N)
                   (memory mm @ [\<lparr> role = r, content = c \<rparr>]))"
proof (cases "c = []")
  case True
  then show ?thesis by (simp add: add_message_def)
next
  case False
  have "nat (int (Suc (length (memory mm))) - int (2 * N)) = Suc (length (memory mm)) - 2 * N"
    by linarith
  with False assms show ?thesis
    by (auto simp: add_message_def Let_def py_slice_from_def)
qed

lemma drop_window_snoc:
  "drop (Suc (length (drop (length xs - k) xs)) - k) (drop (length xs - k) xs @ [x])
     = drop (Suc (length xs) - k) (xs @ [x])"
proof (cases "length xs \<le> k")
  case True
  then show ?thesis by simp
next
  case False
  then have k: "k < length xs" by simp
  then have a: "Suc (length xs) - k = Suc (length xs - k)" by simp
  from k have b: "Suc (length (drop (length xs - k) xs)) - k = 1" by simp
  have c: "drop (length xs - k) xs @ [x] = drop (length xs - k) (xs @ [x])" by simp
  have "drop 1 (drop (length xs - k) (xs @ [x])) = drop (Suc (length xs - k)) (xs @ [x])"
    by (simp only: drop_drop) simp
  with a b c show ?thesis by simp
qed

lemma add_messages_memory:
  assumes "max_messages mm = int (2 * N)"
      and "memory mm = drop (length hist - 2 * N) hist"
  shows "memory (add_messages mm calls)
           = drop (length (hist @ offered calls) - 2 * N) (hist @ offered calls)"
  using assms
proof (induction mm calls arbitrary: hist rule: add_messages.induct)
  case (1 mm)
  then show ?case by (simp add: offered_def)
next
  case (2 mm r c calls)
  show ?case
  proof (cases "c = []")
    case True
    then have "add_message mm r c = mm" by (simp add: add_message_def)
    moreover from True have "offered ((r, c) # calls) = offered calls"
      by (simp add: offered_def)
    ultimately show ?thesis using "2.IH" [of hist] "2.prems" by simp
  next
    case False
    let ?m = "\<lparr> role = r, content = c \<rparr>"
    have mem: "memory (add_message mm r c)
                 = drop (length (hist @ [?m]) - 2 * N) (hist @ [?m])"
      using add_message_memory [OF "2.prems"(1), of r c] False "2.prems"(2)
            drop_window_snoc [of hist "2 * N" ?m]
      by simp
    have off: "offered ((r, c) # calls) = ?m # offered calls"
      using False by (simp add: offered_def)
    have "max_messages (add_message mm r c) = int (2 * N)"
      using "2.prems"(1) by simp
    from "2.IH" [OF this mem] off show ?thesis by simp
  qed
qed

text \<open>
  Claim C8. The memory store is a bounded FIFO. Starting from a fresh manager with
  \<open>max_turns = N\<close>, after any sequence of \<open>add_message\<close> calls the stored list has at
  most \<open>2 * N\<close> entries, and it is exactly the last \<open>2 * N\<close> (or fewer, when fewer were
  offered) of the non-empty messages added, in the order in which they were added: the
  entries dropped are the oldest ones and the remaining ones keep their order.
\<close>

theorem memory_bounded_fifo:
  "length (memory (add_messages (MemoryManager_init (int N)) calls)) \<le> 2 * N \<and>
   memory (add_messages (MemoryManager_init (int N)) calls)
     = drop (length (offered calls) - 2 * N) (offered calls)"
proof -
  have "memory (add_messages (MemoryManager_init (int N)) calls)
          = drop (length ([] @ offered calls) - 2 * N) ([] @ offered calls)"
    by (rule add_messages_memory) (simp_all add: MemoryManager_init_def)
  then have eq: "memory (add_messages (MemoryManager_init (int N)) calls)
                   = drop (length (offered calls) - 2 * N) (offered calls)"
    by simp
  then show ?thesis by simp
qed


section \<open>Properties of price parsing\<close>


lemma upper_letters_not_digit: "d \<in> set upper_letters \<Longrightarrow> \<not> is_digit d"
  unfolding upper_letters_def is_digit_def by auto



lemma digit_lower_char_id: "is_digit c \<Longrightarrow> lower_char c = c"
proof -
  assume d: "is_digit c"
  have "map_of (zip upper_letters lower_letters) c = None"
  proof (cases "map_of (zip upper_letters lower_letters) c")
    case None then show ?thesis .
  next
    case (Some e)
    then have "(c, e) \<in> set (zip upper_letters lower_letters)" by (rule map_of_SomeD)
    then have "c \<in> set upper_letters" by (auto dest: set_zip_leftD)
    with d upper_letters_not_digit show ?thesis by blast
  qed
  then show ?thesis by (simp add: lower_char_def)
qed




















section \<open>Properties of entity normalization\<close>

text \<open>
  Claim C5 at the raw mapping \<open>{"phone_number": "555 12 34"}\<close>. The phone has 7 digits,
  so \<open>_normalize_phone\<close> returns None; the normalizer nevertheless stores the key
  \<open>phone\<close>, with the value None, in its output.
\<close>

theorem normalize_entities_invalid_phone:
  "normalize_entities (\<lambda>v. []) [(''phone_number'', PStr ''555 12 34'')] =
     Inr [(''phone'', PNone), (''is_greeting'', PBool False), (''is_reset'', PBool False),
          (''is_farewell'', PBool False), (''is_list_all'', PBool False),
          (''is_similarity_request'', PBool False), (''confirmation'', PNone)]"
  by code_simp

text \<open>
  The sibling fields: an unparseable price or year leaves no key behind, and a price that
  is a NaN float makes the normalizer raise.
\<close>

lemma normalize_entities_invalid_price_year:
  "normalize_entities (\<lambda>v. []) [(''min_price'', PStr ''ucuz''), (''max_year'', PStr ''yeni'')] =
     Inr [(''is_greeting'', PBool False), (''is_reset'', PBool False),
          (''is_farewell'', PBool False), (''is_list_all'', PBool False),
          (''is_similarity_request'', PBool False), (''confirmation'', PNone)]"
  by code_simp

lemma normalize_entities_nan_price:
  "normalize_entities (\<lambda>v. []) [(''min_price'', PFloat NaN)] = Inl ValueError"
  by code_simp

text \<open>
  The normalizer raises exactly when one of the two raw prices is a float that is not
  finite.
\<close>

lemma parse_price_raises:
  "(\<exists>e. parse_price R v = Inl e) \<longleftrightarrow> v \<in> {PFloat NaN, PFloat PosInf, PFloat NegInf}"
  by (cases v) (auto simp: parse_price_def int_of_float_def split: pyfloat.splits)

lemma normalize_entities_raises:
  "(\<exists>e. normalize_entities R entities = Inl e) \<longleftrightarrow>
     dict_get entities ''min_price'' \<in> {PFloat NaN, PFloat PosInf, PFloat NegInf} \<or>
     dict_get entities ''max_price'' \<in> {PFloat NaN, PFloat PosInf, PFloat NegInf}"
proof -
  have "(\<exists>e. normalize_entities R entities = Inl e) \<longleftrightarrow>
          (\<exists>e. parse_price R (dict_get entities ''min_price'') = Inl e) \<or>
          (\<exists>e. parse_price R (dict_get entities ''max_price'') = Inl e)"
    by (auto simp: normalize_entities_def Let_def split: sum.splits)
  then show ?thesis by (simp only: parse_price_raises)
qed

text \<open>
  What the stored None does next: merged into a context that knows the customer's phone,
  the normalized mapping of an invalid phone erases the phone and counts as an update.
\<close>

lemma invalid_phone_erases_customer_phone:
  "customer_phone (current_context (fst (update_context_with_entities
      (ctx_upd (\<lambda>ctx. ctx\<lparr> customer_phone := PStr ''05321234567'' \<rparr>) new_agent)
      [(''phone'', PNone), (''confirmation'', PNone)]))) = PNone \<and>
   snd (update_context_with_entities
      (ctx_upd (\<lambda>ctx. ctx\<lparr> customer_phone := PStr ''05321234567'' \<rparr>) new_agent)
      [(''phone'', PNone), (''confirmation'', PNone)])"
  by code_simp

section \<open>Properties of the search permission\<close>




section \<open>Properties of the context update\<close>







lemma update_customer_info_filters:
  "filters (fst (update_customer_info ctx entities)) = filters ctx"
  by (simp add: update_customer_info_def Let_def)

lemma update_context_unfold:
  assumes "entities \<noteq> []"
      and "update_customer_info (current_context ag) entities = (c1, u1, k1)"
      and "foldl (update_filter_key entities) (c1, u1, k1, []) potential_filter_keys
             = (c2, u2, k2, a2)"
      and "brand_change_reset (dict_get (filters c1) ''brand'') (c2, u2) = (c3, u3)"
  shows "update_context_with_entities ag entities
           = (\<lparr> current_context = finalize_update c3 u3 a2, updated_keys_this_turn = k2 \<rparr>, u3)"
  using assms by (simp add: update_context_with_entities_def)

lemma filters_finalize_update [simp]:
  "filters (finalize_update ctx u a) = filters ctx"
  by (simp add: finalize_update_def)

lemma asked_finalize_update [simp]:
  "asked_questions (finalize_update ctx u a) = asked_questions ctx"
  by (simp add: finalize_update_def)







lemma update_filter_key_skip:
  "\<not> applies entities (fst st) k \<Longrightarrow> update_filter_key entities st k = st"
  by (cases st) (auto simp: update_filter_key_def applies_def Let_def)

lemma loop_skip:
  "\<forall>k\<in>set ks. \<not> applies entities (fst st) k \<Longrightarrow>
   foldl (update_filter_key entities) st ks = st"
  by (induction ks) (simp_all add: update_filter_key_skip)








text \<open>
  Idempotence for a mapping that is not empty: when every customer value and every filter
  value of the mapping is None or equal to the stored one (and the stored brand is equal
  to itself, which fails only for a NaN), the update changes nothing but the
  acknowledgment, which becomes None, resets the keys updated in this turn and returns
  False.
\<close>

lemma update_idempotent_nonempty:
  assumes ne: "entities \<noteq> []"
      and fn: "dict_has entities ''first_name'' \<longrightarrow>
                 py_eq (customer_first_name (current_context ag)) (dict_get entities ''first_name'')"
      and ph: "dict_has entities ''phone'' \<longrightarrow>
                 py_eq (customer_phone (current_context ag)) (dict_get entities ''phone'')"
      and fl: "\<forall>k\<in>set potential_filter_keys. dict_has entities k \<longrightarrow>
                 dict_get entities k = PNone \<or>
                 py_eq (dict_get (filters (current_context ag)) k) (dict_get entities k)"
      and br: "\<not> truthy (dict_get (filters (current_context ag)) ''brand'') \<or>
               py_eq (dict_get (filters (current_context ag)) ''brand'')
                     (dict_get (filters (current_context ag)) ''brand'')"
  shows "update_context_with_entities ag entities =
           (\<lparr> current_context = (current_context ag)\<lparr> last_acknowledged_info := None \<rparr>,
              updated_keys_this_turn = {} \<rparr>, False)"
proof -
  let ?c = "current_context ag"
  have cu: "update_customer_info ?c entities = (?c, False, {})"
    using fn ph by (simp add: update_customer_info_def)
  have "\<forall>k\<in>set potential_filter_keys. \<not> applies entities (fst (?c, False, {}, [])) k"
    using fl by (auto simp: applies_def)
  then have lp: "foldl (update_filter_key entities) (?c, False, {}, []) potential_filter_keys
                   = (?c, False, {}, [])"
    by (rule loop_skip)
  have bcr: "brand_change_reset (dict_get (filters ?c) ''brand'') (?c, False) = (?c, False)"
    using br by (auto simp: brand_change_reset_def Let_def)
  from update_context_unfold [OF ne cu lp bcr] show ?thesis
    by (simp add: finalize_update_def)
qed

text \<open>
  Claim C9 at the empty mapping, which matches the stored values vacuously: the update
  returns at once, before the final block, and the acknowledgment of the earlier turn
  stays in the context.
\<close>

theorem update_empty_mapping_keeps_acknowledgment:
  "update_context_with_entities acknowledging_agent [] = (acknowledging_agent, False) \<and>
   last_acknowledged_info
     (current_context (fst (update_context_with_entities acknowledging_agent [])))
     = Some [(''brand'', PStr ''Toyota'')]"
  by code_simp

section \<open>Properties of the similar-price lookup\<close>

text \<open>
  The tolerance: \<open>float_0_15\<close> has a 53-bit mantissa and lies within half a unit in the
  last place of 15/100, so it is the double the literal \<open>0.15\<close> denotes; its exact
  decimal expansion is below 0.15.
\<close>

lemma float_0_15_nearest:
  "float_0_15 = Float 5404319552844595 (- 55) \<and>
   (2::int) ^ 52 \<le> 5404319552844595 \<and> (5404319552844595::int) < 2 ^ 53 \<and>
   2 * \<bar>100 * 5404319552844595 - 15 * (2::int) ^ 55\<bar> \<le> 100"
  by (simp add: float_0_15_def)

lemma Decimal_of_float_0_15:
  "Decimal_of_float float_0_15
     = Some (Decimal 1499999999999999944488848768742172978818416595458984375 (- 55))"
  by code_simp

lemma price_window_0_15:
  "price_window 60000000 (Decimal 1499999999999999944488848768742172978818416595458984375 (- 55))
     = (Decimal 5100000000000000033306690739 (- 22), Decimal 6899999999999999966693309262 (- 22))"
  by code_simp

lemma dec_le_lower:
  "dec_le (Decimal 5100000000000000033306690739 (- 22)) (Decimal_of_price p) \<longleftrightarrow> 51000000 < p"
proof -
  have "dec_le (Decimal 5100000000000000033306690739 (- 22)) (Decimal_of_price p)
          \<longleftrightarrow> 5100000000000000033306690739 \<le> p * 100000000000000000000"
    by (simp add: dec_le_def Decimal_of_price_def Let_def)
  also have "\<dots> \<longleftrightarrow> 51000000 < p" by linarith
  finally show ?thesis .
qed

lemma dec_le_upper:
  "dec_le (Decimal_of_price p) (Decimal 6899999999999999966693309262 (- 22)) \<longleftrightarrow> p < 69000000"
proof -
  have "dec_le (Decimal_of_price p) (Decimal 6899999999999999966693309262 (- 22))
          \<longleftrightarrow> p * 100000000000000000000 \<le> 6899999999999999966693309262"
    by (simp add: dec_le_def Decimal_of_price_def Let_def)
  also have "\<dots> \<longleftrightarrow> p < 69000000" by linarith
  finally show ?thesis .
qed

text \<open>
  What the lookup does guarantee, for every table, target and finite tolerance: every row
  it returns lies in the computed window and is not excluded, the rows are ordered by their
  distance from the target, and there are at most \<open>limit\<close> of them.
\<close>

lemma find_similar_priced_cars_sound:
  assumes "Decimal_of_float tolerance = Some tol"
  shows "set (find_similar_priced_cars table (Some target) eb em tolerance limit)
           \<subseteq> {c \<in> set table. in_window (price_window target tol) (price c) \<and>
                              not_excluded eb em c} \<and>
         sorted (map (\<lambda>c. \<bar>price c - target\<bar>)
                   (find_similar_priced_cars table (Some target) eb em tolerance limit)) \<and>
         length (find_similar_priced_cars table (Some target) eb em tolerance limit) \<le> limit"
proof -
  let ?rows = "sort_key (\<lambda>c. \<bar>price c - target\<bar>)
                 (filter (not_excluded eb em)
                    (filter (\<lambda>c. in_window (price_window target tol) (price c)) table))"
  have r: "find_similar_priced_cars table (Some target) eb em tolerance limit = take limit ?rows"
    using assms by (simp add: find_similar_priced_cars_def Let_def)
  have "set (take limit ?rows) \<subseteq> set ?rows" by (rule set_take_subset)
  then have a: "set (take limit ?rows)
                  \<subseteq> {c \<in> set table. in_window (price_window target tol) (price c) \<and>
                                     not_excluded eb em c}"
    by auto
  have "sorted (map (\<lambda>c. \<bar>price c - target\<bar>) ?rows)" by (rule sorted_sort_key)
  then have b: "sorted (map (\<lambda>c. \<bar>price c - target\<bar>) (take limit ?rows))"
    by (simp add: take_map [symmetric] sorted_wrt_take)
  show ?thesis unfolding r using a b by simp
qed

text \<open>
  Claim C7 at the anchor price 600000.00 with the tolerance \<open>0.15\<close>. The bounds the code
  computes are 510000.0000000000033306690739 and 689999.9999999999966693309262, so a price
  of the table (a number of hundredths) is admitted exactly when it lies strictly between
  510000.00 and 690000.00. With a Honda Civic at 510000.00 and a Kia Sportage at 690000.00
  in the table and a Toyota Corolla as the anchor, the lookup returns nothing and the turn
  that asks for similar cars answers that there are none.
\<close>

theorem similar_price_window_600000:
  "price_window 60000000 (Decimal 1499999999999999944488848768742172978818416595458984375 (- 55))
     = (Decimal 5100000000000000033306690739 (- 22), Decimal 6899999999999999966693309262 (- 22)) \<and>
   in_window (Decimal 5100000000000000033306690739 (- 22),
              Decimal 6899999999999999966693309262 (- 22)) p
     = (51000000 < p \<and> p < 69000000) \<and>
   find_similar_priced_cars
     [example_car 1 ''Honda'' ''Civic'' 51000000, example_car 2 ''Kia'' ''Sportage'' 69000000]
     (Some 60000000) (Some ''Toyota'') (Some ''Corolla'') float_0_15 5 = [] \<and>
   fst (snd (process_message
     (example_db [example_car 1 ''Honda'' ''Civic'' 51000000,
                  example_car 2 ''Kia'' ''Sportage'' 69000000])
     anchored_agent [(''is_similarity_request'', PBool True)])) = Some R_no_similar_results"
proof -
  have a: "in_window (Decimal 5100000000000000033306690739 (- 22),
              Decimal 6899999999999999966693309262 (- 22)) p
            = (51000000 < p \<and> p < 69000000)"
    by (simp only: in_window_def fst_conv snd_conv dec_le_lower dec_le_upper)
  have b: "find_similar_priced_cars
     [example_car 1 ''Honda'' ''Civic'' 51000000, example_car 2 ''Kia'' ''Sportage'' 69000000]
     (Some 60000000) (Some ''Toyota'') (Some ''Corolla'') float_0_15 5 = []"
    by code_simp
  have c: "fst (snd (process_message
     (example_db [example_car 1 ''Honda'' ''Civic'' 51000000,
                  example_car 2 ''Kia'' ''Sportage'' 69000000])
     anchored_agent [(''is_similarity_request'', PBool True)])) = Some R_no_similar_results"
    by code_simp
  from price_window_0_15 a b c show ?thesis by (simp only: simp_thms)
qed

text \<open>Rows strictly inside the window are returned, nearest first.\<close>

lemma find_similar_priced_cars_inside:
  "map car_id (find_similar_priced_cars
     [example_car 1 ''Honda'' ''Civic'' 51000001, example_car 2 ''Kia'' ''Sportage'' 68999999,
      example_car 3 ''toyota'' ''COROLLA'' 60000000, example_car 4 ''Toyota'' ''Yaris'' 61000000]
     (Some 60000000) (Some ''Toyota'') (Some ''Corolla'') float_0_15 5) = [4, 1, 2]"
  by code_simp

section \<open>Properties of action execution and turn processing\<close>

lemma distinct_dict_set:
  "distinct (map fst d) \<Longrightarrow> distinct (map fst (dict_set d k v))"
  by (simp add: dict_set_def distinct_update)

lemma update_filter_key_distinct:
  "distinct (map fst (filters (fst st))) \<Longrightarrow>
   distinct (map fst (filters (fst (update_filter_key entities st k))))"
  by (cases st) (auto simp: update_filter_key_def Let_def distinct_dict_set)

lemma loop_distinct:
  "distinct (map fst (filters (fst st))) \<Longrightarrow>
   distinct (map fst (filters (fst (foldl (update_filter_key entities) st ks))))"
  by (induction ks arbitrary: st) (simp_all add: update_filter_key_distinct)

lemma brand_change_reset_distinct:
  "distinct (map fst (filters (fst st))) \<Longrightarrow>
   distinct (map fst (filters (fst (brand_change_reset b st))))"
  by (cases st) (auto simp: brand_change_reset_def Let_def distinct_dict_set split: option.splits)

lemma update_context_distinct:
  assumes "distinct (map fst (filters (current_context ag)))"
  shows "distinct (map fst (filters (current_context (fst (update_context_with_entities ag entities)))))"
proof (cases "entities = []")
  case True
  with assms show ?thesis by (simp add: update_context_with_entities_def)
next
  case False
  obtain c1 u1 k1 where cu: "update_customer_info (current_context ag) entities = (c1, u1, k1)"
    by (cases "update_customer_info (current_context ag) entities") auto
  then have f1: "filters c1 = filters (current_context ag)"
    using update_customer_info_filters [of "current_context ag" entities] by simp
  obtain c2 u2 k2 a2 where
    lp: "foldl (update_filter_key entities) (c1, u1, k1, []) potential_filter_keys = (c2, u2, k2, a2)"
    by (cases "foldl (update_filter_key entities) (c1, u1, k1, []) potential_filter_keys") auto
  obtain c3 u3 where
    br: "brand_change_reset (dict_get (filters c1) ''brand'') (c2, u2) = (c3, u3)"
    by (cases "brand_change_reset (dict_get (filters c1) ''brand'') (c2, u2)") auto
  from loop_distinct [of "(c1, u1, k1, [])" entities potential_filter_keys] lp f1 assms
  have "distinct (map fst (filters c2))" by simp
  with brand_change_reset_distinct [of "(c2, u2)" "dict_get (filters c1) ''brand''"] br
  have "distinct (map fst (filters c3))" by simp
  with update_context_unfold [OF False cu lp br] show ?thesis by simp
qed

lemma identify_customer_filters:
  "filters (current_context (identify_customer db ag entities)) = filters (current_context ag)"
  by (simp add: identify_customer_def Let_def split: option.splits)

lemma merged_agent_distinct:
  "distinct (map fst (filters (current_context ag))) \<Longrightarrow>
   distinct (map fst (filters (current_context (merged_agent db ag entities))))"
  unfolding merged_agent_def identified_agent_def
  by (rule update_context_distinct) (simp add: identify_customer_filters)

text \<open>
  A dictionary comprehension with a condition, read through \<open>get\<close>: a key keeps its
  value when the condition holds for its entry and reads as None otherwise.
\<close>

lemma dict_get_filter:
  assumes "distinct (map fst d)"
  shows "dict_get (filter P d) k =
           (if dict_has d k \<and> P (k, dict_get d k) then dict_get d k else PNone)"
  using assms
proof (induction d)
  case Nil
  show ?case by (simp add: dict_get_def dict_has_def)
next
  case (Cons entry d)
  obtain k0 v0 where entry: "entry = (k0, v0)" by (cases entry)
  from Cons.prems entry have fresh: "map_of d k0 = None" and rest: "distinct (map fst d)"
    by (auto simp: map_of_eq_None_iff)
  from Cons.IH [OF rest] have ih:
    "dict_get (filter P d) k =
       (if dict_has d k \<and> P (k, dict_get d k) then dict_get d k else PNone)" .
  show ?case
  proof (cases "k = k0")
    case True
    with fresh have "dict_get (filter P d) k = PNone"
      using ih by (simp add: dict_has_def)
    with True entry show ?thesis
      by (simp add: dict_get_def dict_has_def)
  next
    case False
    with entry ih show ?thesis
      by (simp add: dict_get_def dict_has_def)
  qed
qed

lemma active_filters_get:
  assumes "distinct (map fst fs)" and "Car_hasattr (base_key_of k) \<or> k \<in> set range_keys"
  shows "dict_get (active_filters_of fs) k = dict_get fs k"
proof -
  have "dict_get (active_filters_of fs) k =
          (if dict_has fs k \<and> dict_get fs k \<noteq> PNone then dict_get fs k else PNone)"
    unfolding active_filters_of_def
    using dict_get_filter [OF assms(1), of
            "\<lambda>(k, v). v \<noteq> PNone \<and> (Car_hasattr (base_key_of k) \<or> k \<in> set range_keys)" k]
          assms(2)
    by simp
  then show ?thesis by (auto simp: dict_get_def dict_has_def split: option.splits)
qed

lemma filters_clear_turn_state [simp]: "filters (clear_turn_state a ctx) = filters ctx"
  by (simp add: clear_turn_state_def Let_def)

lemma search_performed_clear_turn_state:
  "a \<noteq> ''handle_model_confirmation'' \<Longrightarrow> \<not> search_performed (clear_turn_state a ctx)"
  by (simp add: clear_turn_state_def Let_def)

lemma do_search_redirect:
  assumes "distinct (map fst (filters (current_context ag)))"
      and "truthy (dict_get (filters (current_context ag)) ''model'')"
      and "\<not> truthy (dict_get (filters (current_context ag)) ''brand'')"
  shows "do_search db (ag, a, r, x) = (ag, ''clarify_model'', r, x)"
  using assms
  by (simp add: do_search_def Let_def active_filters_get base_key_of_simps Car_hasattr_simps)

lemma do_clarify_model_keeps:
  "case do_clarify_model db (ag, a, r, x) of (ag', a', r', x') \<Rightarrow>
     a' = a \<and> search_performed (current_context ag') = search_performed (current_context ag)"
  by (simp add: do_clarify_model_def Let_def split: list.splits)

lemma store_response_keeps:
  "case store_response (ag, a, r, x) of (ag', a', r', x') \<Rightarrow>
     a' = a \<and> x' = x \<and>
     search_performed (current_context ag') = search_performed (current_context ag)"
  by (simp add: store_response_def)

lemma clarify_tail:
  assumes "\<not> search_performed (current_context ag)"
  shows "case unless_raised store_response
             (unless_raised (dispatch_clarification db entities) (ag, ''clarify_model'', r, False)) of
         (ag', a', r', x') \<Rightarrow> a' = ''clarify_model'' \<and> \<not> search_performed (current_context ag')"
proof -
  obtain ag1 a1 r1 x1 where c: "do_clarify_model db (ag, ''clarify_model'', r, False) = (ag1, a1, r1, x1)"
    by (cases "do_clarify_model db (ag, ''clarify_model'', r, False)") auto
  with do_clarify_model_keeps [where db = db and ag = ag and a = "''clarify_model''" and r = r
         and x = False] assms
  have a1: "a1 = ''clarify_model''" and s1: "\<not> search_performed (current_context ag1)" by simp_all
  have d: "unless_raised (dispatch_clarification db entities) (ag, ''clarify_model'', r, False)
             = (ag1, ''clarify_model'', r1, x1)"
    by (simp add: unless_raised_def dispatch_clarification_def c a1)
  obtain ag2 a2 r2 x2 where
    s: "store_response (ag1, ''clarify_model'', r1, x1) = (ag2, a2, r2, x2)"
    by (cases "store_response (ag1, ''clarify_model'', r1, x1)") auto
  with store_response_keeps [where ag = ag1 and a = "''clarify_model''" and r = r1 and x = x1] s1
  have a2: "a2 = ''clarify_model''" and s2: "\<not> search_performed (current_context ag2)" by simp_all
  show ?thesis
  proof (cases x1)
    case True
    then show ?thesis unfolding d by (simp add: unless_raised_def s1)
  next
    case False
    with s have "store_response (ag1, ''clarify_model'', r1, False) = (ag2, a2, r2, x2)"
      by simp
    with False show ?thesis unfolding d by (simp add: unless_raised_def a2 s2)
  qed
qed

lemma lookup_skips_clarify:
  "unless_raised (dispatch_lookup db) (ag, ''clarify_model'', r, False)
     = (ag, ''clarify_model'', r, False)"
  by (simp add: unless_raised_def dispatch_lookup_def)

lemma execute_clarify_model:
  "case execute_action db ag ''clarify_model'' entities of
     (ag', a', x') \<Rightarrow> a' = ''clarify_model'' \<and> \<not> search_performed (current_context ag')"
proof -
  have "\<not> search_performed (current_context (ctx_upd (clear_turn_state ''clarify_model'') ag))"
    by (simp add: search_performed_clear_turn_state)
  from clarify_tail [OF this, of db entities R_generic_fallback]
  show ?thesis
    by (simp add: execute_action_def lookup_skips_clarify split: prod.splits)
qed

lemma execute_search_redirected:
  assumes "distinct (map fst (filters (current_context ag)))"
      and "truthy (dict_get (filters (current_context ag)) ''model'')"
      and "\<not> truthy (dict_get (filters (current_context ag)) ''brand'')"
  shows "case execute_action db ag ''search'' entities of
     (ag', a', x') \<Rightarrow> a' = ''clarify_model'' \<and> \<not> search_performed (current_context ag')"
proof -
  let ?ag = "ctx_upd (clear_turn_state ''search'') ag"
  have ns: "\<not> search_performed (current_context ?ag)"
    by (simp add: search_performed_clear_turn_state)
  have red: "do_search db (?ag, ''search'', R_generic_fallback, False)
               = (?ag, ''clarify_model'', R_generic_fallback, False)"
    by (rule do_search_redirect) (use assms in simp_all)
  from clarify_tail [OF ns, of db entities R_generic_fallback]
  show ?thesis
    by (simp add: execute_action_def red lookup_skips_clarify split: prod.splits)
qed

lemma should_search_model:
  "truthy (dict_get (filters (current_context ag)) ''model'') \<Longrightarrow> should_search ag"
  by (auto simp: should_search_def Let_def SEARCH_TRIGGER_FIELDS_def Car_hasattr_def)

lemma finish_turn_action: "snd (snd (finish_turn (ag, a, x))) = Some a"
  by (simp add: finish_turn_def)

lemma finish_turn_search_performed:
  "search_performed (current_context (fst (finish_turn (ag, a, x))))
     = search_performed (current_context ag)"
  by (simp add: finish_turn_def on_error_def)

lemma mark_asked_brand: "asked_questions (mark_asked ''brand'' ctx) = insert ''asked_brand'' (asked_questions ctx)"
  by (simp add: mark_asked_def asked_flag_of_def FILTER_QUESTIONS_def)

lemma mark_asked_model: "asked_questions (mark_asked ''model'' ctx) = insert ''asked_model'' (asked_questions ctx)"
  by (simp add: mark_asked_def asked_flag_of_def FILTER_QUESTIONS_def)

lemma get_next_question_ctx:
  "filters (current_context (fst (get_next_question ag))) = filters (current_context ag) \<and>
   asked_questions (current_context (fst (get_next_question ag))) = asked_questions (current_context ag) \<and>
   awaiting_model_confirmation (current_context (fst (get_next_question ag)))
     = awaiting_model_confirmation (current_context ag) \<and>
   potential_model_matches (current_context (fst (get_next_question ag)))
     = potential_model_matches (current_context ag)"
  by (simp add: get_next_question_def Let_def split: option.splits prod.splits)

lemma handle_confirmation_yes:
  assumes "dict_get entities ''confirmation'' = PStr ''yes''"
      and "potential_model_matches (current_context ag) = Some (c # cs)"
  shows "case do_handle_model_confirmation entities (ag, a, r, x) of (ag', a', r', x') \<Rightarrow>
           dict_get (filters (current_context ag')) ''brand'' = PStr (brand c) \<and>
           dict_get (filters (current_context ag')) ''model'' = PStr (model c) \<and>
           asked_questions (current_context ag') =
             insert ''asked_model'' (insert ''asked_brand'' (asked_questions (current_context ag))) \<and>
           \<not> awaiting_model_confirmation (current_context ag') \<and>
           potential_model_matches (current_context ag') = None \<and> a' = a \<and> x' = x"
proof -
  let ?ag = "ctx_upd (mark_asked ''model'') (ctx_upd (mark_asked ''brand'')
               (ctx_upd (\<lambda>ctx. ctx\<lparr> filters := dict_set (filters ctx) ''model'' (PStr (model c)) \<rparr>)
               (ctx_upd (\<lambda>ctx. ctx\<lparr> filters := dict_set (filters ctx) ''brand'' (PStr (brand c)) \<rparr>)
                  ag)))"
  obtain ag1 q where gn: "get_next_question ?ag = (ag1, q)"
    by (cases "get_next_question ?ag") auto
  from get_next_question_ctx [of ?ag] gn
  have f: "filters (current_context ag1) = filters (current_context ?ag)"
    and q: "asked_questions (current_context ag1) = asked_questions (current_context ?ag)"
    by simp_all
  have r: "do_handle_model_confirmation entities (ag, a, r, x) =
             (ctx_upd (\<lambda>ctx. ctx\<lparr> awaiting_model_confirmation := False,
                                  potential_model_matches := None \<rparr>) ag1,
              a, R_confirmation_acknowledge_ask_next (brand c) (model c) q, x)"
    using assms gn by (simp add: do_handle_model_confirmation_def Let_def py_eq_PStr)
  show ?thesis
    unfolding r
    by (simp add: ctx_upd_def f q dict_get_set mark_asked_brand mark_asked_model)
qed

lemma handle_confirmation_exit:
  "case do_handle_model_confirmation entities (ag, a, r, x) of (ag', a', r', x') \<Rightarrow>
           \<not> awaiting_model_confirmation (current_context ag') \<and>
           potential_model_matches (current_context ag') = None \<and> a' = a \<and> x' = x"
  by (simp add: do_handle_model_confirmation_def Let_def ctx_upd_def split: prod.splits)

lemma clear_turn_state_handle:
  "clear_turn_state ''handle_model_confirmation'' ctx =
     ctx\<lparr> last_shown_cars := None, last_shown_target_price := None,
          last_shown_target_model := None, last_shown_target_brand := None \<rparr>"
  by (simp add: clear_turn_state_def)

lemma execute_action_handle:
  "execute_action db ag ''handle_model_confirmation'' entities =
     (case do_handle_model_confirmation entities
             (ctx_upd (clear_turn_state ''handle_model_confirmation'') ag,
              ''handle_model_confirmation'', R_generic_fallback, False) of
        (ag', a, r, x) \<Rightarrow>
          (ctx_upd (\<lambda>ctx. ctx\<lparr> last_response := Some r \<rparr>) ag',
           ''handle_model_confirmation'', False))"
proof -
  let ?st = "(ctx_upd (clear_turn_state ''handle_model_confirmation'') ag,
              ''handle_model_confirmation'', R_generic_fallback, False)"
  obtain ag' a r x where d: "do_handle_model_confirmation entities ?st = (ag', a, r, x)"
    by (cases "do_handle_model_confirmation entities ?st") auto
  with handle_confirmation_exit [where entities = entities
         and ag = "ctx_upd (clear_turn_state ''handle_model_confirmation'') ag"
         and a = "''handle_model_confirmation''" and r = R_generic_fallback and x = False]
  have a: "a = ''handle_model_confirmation''" and x: "x = False" by simp_all
  show ?thesis
    by (simp add: execute_action_def unless_raised_def store_response_def
          dispatch_lookup_def dispatch_clarification_def d a x)
qed

text \<open>
  Claim C6. While the agent awaits a model confirmation: a turn whose confirmation value is
  'yes', with a non-empty stored candidate list, sets filters.brand and filters.model to
  the brand and model of the first stored candidate and puts the flags \<open>asked_brand\<close> and
  \<open>asked_model\<close> into \<open>asked_questions\<close>; and for every entity mapping (every
  confirmation value) the turn leaves \<open>awaiting_model_confirmation\<close> false and the stored
  candidate list cleared.
\<close>

theorem model_confirmation_handled:
  assumes "awaiting_model_confirmation (current_context ag)"
  shows "(\<forall>c cs. dict_get entities ''confirmation'' = PStr ''yes'' \<and>
                 potential_model_matches (current_context ag) = Some (c # cs) \<longrightarrow>
            dict_get (filters (current_context (fst (process_message db ag entities)))) ''brand''
              = PStr (brand c) \<and>
            dict_get (filters (current_context (fst (process_message db ag entities)))) ''model''
              = PStr (model c) \<and>
            {''asked_brand'', ''asked_model''}
              \<subseteq> asked_questions (current_context (fst (process_message db ag entities)))) \<and>
         \<not> awaiting_model_confirmation (current_context (fst (process_message db ag entities))) \<and>
         potential_model_matches (current_context (fst (process_message db ag entities))) = None"
proof -
  let ?ag0 = "ctx_upd (\<lambda>ctx. ctx\<lparr> last_response := None \<rparr>) (ag\<lparr> updated_keys_this_turn := {} \<rparr>)"
  let ?ag1 = "ctx_upd (clear_turn_state ''handle_model_confirmation'') ?ag0"
  let ?st = "(?ag1, ''handle_model_confirmation'', R_generic_fallback, False)"
  obtain ag' a r x where d: "do_handle_model_confirmation entities ?st = (ag', a, r, x)"
    by (cases "do_handle_model_confirmation entities ?st") auto
  have pm: "process_message db ag entities =
              (ctx_upd (\<lambda>ctx. ctx\<lparr> last_response := Some r \<rparr>) ag', Some r,
               Some ''handle_model_confirmation'')"
    using assms
    by (simp add: process_message_def Let_def execute_action_handle d finish_turn_def)
  have p1: "potential_model_matches (current_context ?ag1) = potential_model_matches (current_context ag)"
    and f1: "asked_questions (current_context ?ag1) = asked_questions (current_context ag)"
    by (simp_all add: ctx_upd_def clear_turn_state_handle)
  from handle_confirmation_exit [where entities = entities and ag = ?ag1
         and a = "''handle_model_confirmation''" and r = R_generic_fallback and x = False] d
  have exit: "\<not> awaiting_model_confirmation (current_context ag')"
             "potential_model_matches (current_context ag') = None"
    by simp_all
  have yes: "dict_get (filters (current_context ag')) ''brand'' = PStr (brand c) \<and>
             dict_get (filters (current_context ag')) ''model'' = PStr (model c) \<and>
             {''asked_brand'', ''asked_model''} \<subseteq> asked_questions (current_context ag')"
    if "dict_get entities ''confirmation'' = PStr ''yes''"
       "potential_model_matches (current_context ag) = Some (c # cs)" for c cs
    using handle_confirmation_yes [where entities = entities and ag = ?ag1 and c = c and cs = cs
            and a = "''handle_model_confirmation''" and r = R_generic_fallback and x = False]
          that d p1 f1
    by auto
  from yes exit show ?thesis by (simp add: pm)
qed

text \<open>
  The statement at the agent that awaits the confirmation of a Toyota Corolla, for the
  answer 'yes'.
\<close>

theorem model_confirmation_handled_witness:
  "awaiting_model_confirmation (current_context awaiting_agent) \<and>
   dict_get (filters (current_context (fst (process_message (example_db []) awaiting_agent
      [(''confirmation'', PStr ''yes'')])))) ''brand'' = PStr ''Toyota'' \<and>
   dict_get (filters (current_context (fst (process_message (example_db []) awaiting_agent
      [(''confirmation'', PStr ''yes'')])))) ''model'' = PStr ''Corolla'' \<and>
   {''asked_brand'', ''asked_model''}
     \<subseteq> asked_questions (current_context (fst (process_message (example_db []) awaiting_agent
         [(''confirmation'', PStr ''yes'')]))) \<and>
   \<not> awaiting_model_confirmation (current_context (fst (process_message (example_db [])
       awaiting_agent [(''confirmation'', PStr ''yes'')]))) \<and>
   potential_model_matches (current_context (fst (process_message (example_db [])
       awaiting_agent [(''confirmation'', PStr ''yes'')]))) = None"
proof -
  have 1: "awaiting_model_confirmation (current_context awaiting_agent)"
    by code_simp
  have 2: "dict_get [(''confirmation'', PStr ''yes'')] ''confirmation'' = PStr ''yes''"
    by code_simp
  have 3: "potential_model_matches (current_context awaiting_agent)
             = Some (example_car 1 ''Toyota'' ''Corolla'' 60000000 # [])"
    by code_simp
  have 4: "brand (example_car 1 ''Toyota'' ''Corolla'' 60000000) = ''Toyota''"
          "model (example_car 1 ''Toyota'' ''Corolla'' 60000000) = ''Corolla''"
    by (simp_all add: example_car_def)
  from model_confirmation_handled [OF 1, of "[(''confirmation'', PStr ''yes'')]" "example_db []"]
       1 2 3 4
  show ?thesis by auto
qed

text \<open>
  Claim C1, as amended. Take a turn that reaches the normal dialogue flow: the agent is
  not awaiting a model confirmation, the entities carry no similarity request and no
  immediate action (reset, farewell, first greeting, list-all) is taken. If, after the
  entities of the turn are merged into the context, filters.model is true in Python's
  truth value test (a non-empty model name) and filters.brand is not, then the action the
  executor runs is \<open>clarify_model\<close> - selected directly, or selected as \<open>search\<close> and
  redirected by the executor before any lookup - and no search is performed in the turn.
  (The filter dictionary is a dictionary: it has no key twice.)
\<close>

theorem clarification_law:
  assumes nf: "normal_flow db ag entities"
      and dk0: "distinct (map fst (filters (current_context ag)))"
      and tm: "truthy (dict_get (filters (current_context (merged_agent db ag entities))) ''model'')"
      and nb: "\<not> truthy (dict_get (filters (current_context (merged_agent db ag entities))) ''brand'')"
  shows "snd (snd (process_message db ag entities)) = Some ''clarify_model'' \<and>
         \<not> search_performed (current_context (fst (process_message db ag entities)))"
proof -
  from dk0 have dk: "distinct (map fst (filters (current_context (merged_agent db ag entities))))"
    by (rule merged_agent_distinct)
  let ?ag1 = "identified_agent db ag entities"
  obtain ag2 cu where up: "update_context_with_entities ?ag1 entities = (ag2, cu)"
    by (cases "update_context_with_entities ?ag1 entities") auto
  then have m: "merged_agent db ag entities = ag2" by (simp add: merged_agent_def)
  obtain ai tk ex rs where im: "immediate_step db ?ag1 entities = (ai, tk, ex, rs)"
    by (cases "immediate_step db ?ag1 entities") auto
  with nf have ntk: "\<not> tk" by (simp add: normal_flow_def)
  from im ntk have ai: "ai = ?ag1" and rs: "\<not> rs"
    by (auto simp: immediate_step_def handle_immediate_actions_def Let_def
             split: if_splits prod.splits)
  have pm: "process_message db ag entities =
              (if needs_model_clarification ag2 cu
               then finish_turn (execute_action db ag2 ''clarify_model'' entities)
               else case determine_action ag2 cu (dict_get entities ''confirmation'') of
                      (ag3, action) \<Rightarrow> finish_turn (execute_action db ag3 action entities))"
    using nf im ntk ai rs up
    by (simp add: process_message_def normal_flow_def identified_agent_def Let_def)
  show ?thesis
  proof (cases "needs_model_clarification ag2 cu")
    case True
    obtain ag' a' x' where e: "execute_action db ag2 ''clarify_model'' entities = (ag', a', x')"
      by (cases "execute_action db ag2 ''clarify_model'' entities") auto
    with execute_clarify_model [of db ag2 entities]
    have "a' = ''clarify_model''" "\<not> search_performed (current_context ag')" by simp_all
    with True e show ?thesis
      by (simp add: pm finish_turn_action finish_turn_search_performed)
  next
    case False
    with tm nb m have cu: "cu" by (auto simp: needs_model_clarification_def Let_def)
    from tm m have "should_search ag2" by (simp add: should_search_model)
    with cu have da: "determine_action ag2 cu (dict_get entities ''confirmation'') = (ag2, ''search'')"
      by (simp add: determine_action_def)
    obtain ag' a' x' where e: "execute_action db ag2 ''search'' entities = (ag', a', x')"
      by (cases "execute_action db ag2 ''search'' entities") auto
    with execute_search_redirected [of ag2 db entities] dk tm nb m
    have "a' = ''clarify_model''" "\<not> search_performed (current_context ag')" by simp_all
    with False da e show ?thesis
      by (simp add: pm finish_turn_action finish_turn_search_performed)
  qed
qed

text \<open>The statement at a new agent and the entity model Corolla.\<close>

theorem clarification_law_witness:
  "normal_flow (example_db []) new_agent [(''model'', PStr ''Corolla'')] \<and>
   truthy (dict_get (filters (current_context
      (merged_agent (example_db []) new_agent [(''model'', PStr ''Corolla'')]))) ''model'') \<and>
   \<not> truthy (dict_get (filters (current_context
      (merged_agent (example_db []) new_agent [(''model'', PStr ''Corolla'')]))) ''brand'') \<and>
   snd (snd (process_message (example_db []) new_agent [(''model'', PStr ''Corolla'')]))
     = Some ''clarify_model'' \<and>
   \<not> search_performed (current_context
      (fst (process_message (example_db []) new_agent [(''model'', PStr ''Corolla'')])))"
proof -
  let ?e = "[(''model'', PStr ''Corolla'')]"
  have 1: "normal_flow (example_db []) new_agent ?e"
    by code_simp
  have 2: "distinct (map fst (filters (current_context new_agent)))"
    by code_simp
  have 3: "truthy (dict_get (filters (current_context
             (merged_agent (example_db []) new_agent ?e))) ''model'')"
    by code_simp
  have 4: "\<not> truthy (dict_get (filters (current_context
             (merged_agent (example_db []) new_agent ?e))) ''brand'')"
    by code_simp
  from clarification_law [OF 1 2 3 4] 1 3 4 show ?thesis by simp
qed

text \<open>
  The redirect at work: the context holds the model Corolla and no brand, and the turn
  sets the engine type; the selector picks \<open>search\<close> and the executor turns it into
  \<open>clarify_model\<close>.
\<close>

lemma clarification_by_redirect:
  "determine_action
     (merged_agent (example_db []) (agent_with_filter ''model'' (PStr ''Corolla''))
        [(''engine_type'', PStr ''Dizel'')]) True PNone
     = (merged_agent (example_db []) (agent_with_filter ''model'' (PStr ''Corolla''))
          [(''engine_type'', PStr ''Dizel'')], ''search'') \<and>
   snd (snd (process_message (example_db []) (agent_with_filter ''model'' (PStr ''Corolla''))
     [(''engine_type'', PStr ''Dizel'')])) = Some ''clarify_model''"
  by code_simp

text \<open>
  Claim C1 as stated fails: in a context with the model Corolla and no brand, not
  awaiting a confirmation, a turn that carries the farewell intent is answered by the
  farewell and runs no action at all.
\<close>

theorem clarification_law_farewell_counterexample:
  "\<not> awaiting_model_confirmation
       (current_context (agent_with_filter ''model'' (PStr ''Corolla''))) \<and>
   dict_get (filters (current_context (agent_with_filter ''model'' (PStr ''Corolla''))))
     ''model'' = PStr ''Corolla'' \<and>
   dict_get (filters (current_context (agent_with_filter ''model'' (PStr ''Corolla''))))
     ''brand'' = PNone \<and>
   process_message (example_db []) (agent_with_filter ''model'' (PStr ''Corolla''))
     [(''is_farewell'', PBool True)]
     = (ctx_upd (\<lambda>ctx. ctx\<lparr> last_response := Some R_farewell \<rparr>)
          (agent_with_filter ''model'' (PStr ''Corolla'')), Some R_farewell, None)"
  by code_simp

end
